theory Spec2Isabelle
  imports Main
begin

section \<open>JavaScript values used by the slot code\<close>

text \<open>
  A JavaScript \<open>Date\<close> built by \<open>new Date(`2000-01-01T${s}:00`)\<close> is modelled as
  \<open>int option\<close>: \<open>Some m\<close> is the instant \<open>m\<close> minutes after local midnight of
  2000-01-01, \<open>None\<close> is the Invalid Date.  The string built from \<open>s\<close> is a date-time
  of the ECMAScript format when \<open>s\<close> is \<open>HH:MM\<close> (the \<open>:00\<close> appended are the seconds) and
  when \<open>s\<close> is \<open>HH\<close> alone (the \<open>:00\<close> appended are the minutes), with hours 00 to 23
  and minutes 00 to 59, or 24:00, the end of the day; both are local times.  The
  constructor also reads a bound that ends in a zone offset (\<open>09:00+01\<close>), with or
  without seconds before it, as an instant that depends on the zone of the process, and an
  engine may read further strings; \<open>newDate2000\<close> gives the Invalid Date for all of these,
  so the statements below about the generators take bounds that \<open>newDate2000\<close> reads, or an
  empty bound, which the generator tests before it builds a date.
\<close>

type_synonym jsdate = "int option"

definition is_digit :: "char \<Rightarrow> bool" where
  "is_digit c = (48 \<le> (of_char c :: nat) \<and> (of_char c :: nat) \<le> 57)"

definition digit_val :: "char \<Rightarrow> nat" where
  "digit_val c = (of_char c :: nat) - 48"

fun newDate2000 :: "string \<Rightarrow> jsdate" where
  "newDate2000 [h1, h2] =
     (if is_digit h1 \<and> is_digit h2 \<and> digit_val h1 * 10 + digit_val h2 \<le> 24
      then Some (int ((digit_val h1 * 10 + digit_val h2) * 60)) else None)"
| "newDate2000 [h1, h2, c, m1, m2] =
     (if is_digit h1 \<and> is_digit h2 \<and> c = CHR '':'' \<and> is_digit m1 \<and> is_digit m2 then
        (let h = digit_val h1 * 10 + digit_val h2; m = digit_val m1 * 10 + digit_val m2
         in if (h \<le> 23 \<and> m \<le> 59) \<or> (h = 24 \<and> m = 0) then Some (int (h * 60 + m)) else None)
      else None)"
| "newDate2000 _ = None"

text \<open>\<open>a < b\<close> on two dates: false as soon as one of them is invalid (NaN).\<close>

fun date_less :: "jsdate \<Rightarrow> jsdate \<Rightarrow> bool" where
  "date_less (Some a) (Some b) = (a < b)"
| "date_less _ _ = False"

text \<open>
  The time value of a \<open>Date\<close> is at most 8.64e15 milliseconds away from the epoch; a date
  set beyond that is invalid.  Midnight of 2000-01-01 is 946684800000 milliseconds, that
  is 15778080 minutes, after the epoch for a process in UTC (in another zone both limits
  move by the offset of the zone, at most 14 hours), and 8.64e15 milliseconds are
  144000000000 minutes.
\<close>

definition dateMin :: int where
  "dateMin = - 144000000000 - 15778080"

definition dateMax :: int where
  "dateMax = 144000000000 - 15778080"

definition inDateRange :: "int \<Rightarrow> bool" where
  "inDateRange c = (dateMin \<le> c \<and> c \<le> dateMax)"

text \<open>
  \<open>d.setMinutes(d.getMinutes() + n)\<close>: the minutes field overflows into the hours and
  the day, so the instant moves by \<open>n\<close> minutes; the date becomes invalid when \<open>n\<close> is NaN
  and when the new instant is out of range.  A number is \<open>int option\<close>, \<open>None\<close> being NaN
  (what \<open>parseInt\<close> gives for a string without a leading integer).
\<close>

fun addMinutes :: "jsdate \<Rightarrow> int option \<Rightarrow> jsdate" where
  "addMinutes (Some c) (Some n) = (if inDateRange (c + n) then Some (c + n) else None)"
| "addMinutes _ _ = None"

definition two_digits :: "nat \<Rightarrow> string" where
  "two_digits n = [char_of (48 + n div 10), char_of (48 + n mod 10)]"

text \<open>\<open>d.toTimeString().slice(0, 5)\<close>: the local time of day as HH:MM.\<close>

fun toTimeString5 :: "jsdate \<Rightarrow> string" where
  "toTimeString5 None = ''Inval''"
| "toTimeString5 (Some c) =
     (let m = nat (c mod 1440) in two_digits (m div 60) @ '':'' @ two_digits (m mod 60))"

text \<open>
  \<open>parseInt(s)\<close> without a radix: leading white space, an optional sign, then, after
  \<open>0x\<close> or \<open>0X\<close>, the longest run of hexadecimal digits read in base sixteen, and
  otherwise the longest run of decimal digits read in base ten; NaN when the run is empty.
\<close>

definition is_space :: "char \<Rightarrow> bool" where
  "is_space c =
     ((of_char c :: nat) = 32 \<or> (9 \<le> (of_char c :: nat) \<and> (of_char c :: nat) \<le> 13))"

fun digits_value :: "nat \<Rightarrow> string \<Rightarrow> nat" where
  "digits_value acc [] = acc"
| "digits_value acc (c # cs) = digits_value (acc * 10 + digit_val c) cs"

definition is_hexdigit :: "char \<Rightarrow> bool" where
  "is_hexdigit c =
     (is_digit c \<or> (65 \<le> (of_char c :: nat) \<and> (of_char c :: nat) \<le> 70) \<or>
      (97 \<le> (of_char c :: nat) \<and> (of_char c :: nat) \<le> 102))"

definition hexdigit_val :: "char \<Rightarrow> nat" where
  "hexdigit_val c =
     (if is_digit c then digit_val c
      else if (of_char c :: nat) \<le> 70 then (of_char c :: nat) - 55
      else (of_char c :: nat) - 87)"

fun hexdigits_value :: "nat \<Rightarrow> string \<Rightarrow> nat" where
  "hexdigits_value acc [] = acc"
| "hexdigits_value acc (c # cs) = hexdigits_value (acc * 16 + hexdigit_val c) cs"

fun parse_digits :: "string \<Rightarrow> int option" where
  "parse_digits (z # x # cs) =
     (if z = CHR ''0'' \<and> (x = CHR ''x'' \<or> x = CHR ''X'')
      then (let ds = takeWhile is_hexdigit cs
            in if ds = [] then None else Some (int (hexdigits_value 0 ds)))
      else (let ds = takeWhile is_digit (z # x # cs)
            in if ds = [] then None else Some (int (digits_value 0 ds))))"
| "parse_digits s =
     (let ds = takeWhile is_digit s in if ds = [] then None else Some (int (digits_value 0 ds)))"

definition parseInt :: "string \<Rightarrow> int option" where
  "parseInt s =
     (case dropWhile is_space s of
        [] \<Rightarrow> None
      | c # cs \<Rightarrow>
          if c = CHR ''-'' then map_option uminus (parse_digits cs)
          else if c = CHR ''+'' then parse_digits cs
          else parse_digits (c # cs))"

section \<open>The slot generator\<close>

record TimeSlot =
  time :: string
  available :: bool

text \<open>
  The loop shared by the three copies of the generator: \<open>generateTimeSlots\<close> of the slot
  booking component (\<open>OptimizedSlotBooking\<close>, src/unnamed/part_007), \<open>generateSlots\<close> of
  the booking dialog (the component in src/app/api/verify-db/route.ts) and
  \<open>generateTimeSlots\<close> of src/app/api/optimize-database/route.ts:
  \<^verbatim>\<open>while (current < endTime) { slots.push(mk(current.toTimeString().slice(0, 5)));
                              current.setMinutes(current.getMinutes() + duration) }\<close>
  The array \<open>slots\<close> is a list, with no bound on its length.  The result \<open>None\<close> means
  that the loop never ends.
\<close>

partial_function (option) slots_while ::
  "(string \<Rightarrow> 'a) \<Rightarrow> jsdate \<Rightarrow> jsdate \<Rightarrow> int option \<Rightarrow> 'a list \<Rightarrow> 'a list option" where
  "slots_while mk current endTime duration slots =
     (if date_less current endTime
      then slots_while mk (addMinutes current duration) endTime duration
             (slots @ [mk (toTimeString5 current)])
      else Some slots)"

declare slots_while.simps [code]

definition mkTimeSlot :: "string \<Rightarrow> TimeSlot" where
  "mkTimeSlot t = \<lparr>time = t, available = True\<rparr>"

text \<open>\<open>generateTimeSlots\<close> of the slot booking component (and \<open>generateSlots\<close> of the dialog).\<close>

definition generateTimeSlots :: "string \<Rightarrow> string \<Rightarrow> int option \<Rightarrow> TimeSlot list option" where
  "generateTimeSlots start end duration =
     (if start = [] \<or> end = [] then Some []
      else slots_while mkTimeSlot (newDate2000 start) (newDate2000 end) duration [])"

text \<open>\<open>generateTimeSlots\<close> of the optimize-database route: plain strings, no emptiness test.\<close>

definition generateTimeSlots_db :: "string \<Rightarrow> string \<Rightarrow> int option \<Rightarrow> string list option" where
  "generateTimeSlots_db startTime endTime durationMinutes =
     slots_while (\<lambda>t. t) (newDate2000 startTime) (newDate2000 endTime) durationMinutes []"

text \<open>The instants the loop visits when the step is positive.\<close>

function ticks :: "int \<Rightarrow> int \<Rightarrow> int \<Rightarrow> int list" where
  "ticks c e d = (if c < e \<and> 0 < d then c # ticks (c + d) e d else [])"
  by pat_completeness auto
termination
  by (relation "measure (\<lambda>(c, e, d). nat (e - c))") auto

declare ticks.simps [simp del]



section \<open>Day schedules and the slot lists shown to the patient\<close>

text \<open>
  A field that may be missing or \<open>null\<close> is an option.  \<open>slotduration\<close> is stored as a
  string; \<open>day_date\<close> is the \<open>date\<close> of a date-specific day, in milliseconds since the epoch.
\<close>

record DaySchedule =
  dayOfWeek :: string
  isOffDay :: bool
  morningStart :: "string option"
  morningEnd :: "string option"
  eveningStart :: "string option"
  eveningEnd :: "string option"
  morningSlots :: "string list option"
  eveningSlots :: "string list option"
  slotduration :: "string option"
  day_date :: "int option"

text \<open>Truthiness of an optional string, and \<open>x || d\<close>.\<close>

fun truthy :: "string option \<Rightarrow> bool" where
  "truthy None = False"
| "truthy (Some s) = (s \<noteq> [])"

definition or_default :: "string option \<Rightarrow> string \<Rightarrow> string" where
  "or_default x d = (if truthy x then the x else d)"

text \<open>
  One session of \<open>processScheduleSlots\<close> (and of \<open>generateSlotsForDay\<close>, which has the same
  three branches): the stored slot array when there is one, otherwise the generated slots
  when both bounds are given, otherwise nothing.
\<close>

definition sessionSlots ::
  "string list option \<Rightarrow> string option \<Rightarrow> string option \<Rightarrow> string option \<Rightarrow> TimeSlot list option" where
  "sessionSlots stored start end dur =
     (case stored of
        Some ts \<Rightarrow> Some (map mkTimeSlot ts)
      | None \<Rightarrow>
          if truthy start \<and> truthy end
          then generateTimeSlots (the start) (the end) (parseInt (or_default dur ''30''))
          else Some [])"

text \<open>
  What the slot booking component receives in \<open>data.schedule\<close>: one day, or (from the last
  fallback of the slots route) the whole array of days.
\<close>

datatype schedule_payload = OneDay DaySchedule | WholeWeek "DaySchedule list option"

text \<open>
  \<open>processScheduleSlots\<close> of the slot booking component.  The result is the pair
  (morningSlots, eveningSlots) it stores; \<open>None\<close> when a generator never returns.  On an
  array no field of a day exists, so both lists are empty.
\<close>

fun processScheduleSlots :: "schedule_payload option \<Rightarrow> (TimeSlot list \<times> TimeSlot list) option" where
  "processScheduleSlots None = Some ([], [])"
| "processScheduleSlots (Some (WholeWeek _)) = Some ([], [])"
| "processScheduleSlots (Some (OneDay scheduleData)) =
     (if isOffDay scheduleData then Some ([], [])
      else
        case sessionSlots (morningSlots scheduleData) (morningStart scheduleData)
               (morningEnd scheduleData) (slotduration scheduleData) of
          None \<Rightarrow> None
        | Some morning \<Rightarrow>
            (case sessionSlots (eveningSlots scheduleData) (eveningStart scheduleData)
                    (eveningEnd scheduleData) (slotduration scheduleData) of
               None \<Rightarrow> None
             | Some evening \<Rightarrow> Some (morning, evening)))"

text \<open>\<open>generateSlotsForDay\<close> of the booking dialog: no test of \<open>isOffDay\<close>.\<close>

definition generateSlotsForDay :: "DaySchedule \<Rightarrow> (TimeSlot list \<times> TimeSlot list) option" where
  "generateSlotsForDay daySchedule =
     (case sessionSlots (morningSlots daySchedule) (morningStart daySchedule)
             (morningEnd daySchedule) (slotduration daySchedule) of
        None \<Rightarrow> None
      | Some morning \<Rightarrow>
          (case sessionSlots (eveningSlots daySchedule) (eveningStart daySchedule)
                  (eveningEnd daySchedule) (slotduration daySchedule) of
             None \<Rightarrow> None
           | Some evening \<Rightarrow> Some (morning, evening)))"

section \<open>Dates of the schedule routes\<close>

text \<open>
  A date of the routes (\<open>new Date(date)\<close>, \<open>weekStart\<close>, \<open>weekEnd\<close>) is its number of
  milliseconds since the epoch.  The weekday is the one of the UTC calendar day
  (1970-01-01 was a Thursday), which is what \<open>toLocaleDateString("en-US", {weekday: "long"})\<close>
  prints in a process running in UTC; in another zone it prints the weekday of the local
  calendar day, which differs from this one for the instants between the two midnights.
  The general statements about the routes take the weekday as the value of \<open>weekdayLong\<close>
  and do not depend on how it is computed; the examples evaluate it for UTC.
\<close>

definition day_number :: "int \<Rightarrow> int" where
  "day_number ms = ms div 86400000"

definition weekdayLong :: "int \<Rightarrow> string" where
  "weekdayLong ms =
     [''Sunday'', ''Monday'', ''Tuesday'', ''Wednesday'', ''Thursday'', ''Friday'', ''Saturday'']
       ! nat ((day_number ms + 4) mod 7)"

section \<open>Object ids and schedule documents\<close>

text \<open>
  An \<open>ObjectId\<close> is its lower-case hexadecimal string.  \<open>new ObjectId(s)\<close> accepts a
  string of 24 hexadecimal characters and throws on any other string (\<open>None\<close>).
  \<open>/^[0-9a-fA-F]{24}$/.test(s)\<close> is \<open>is_hex24 s\<close>.
\<close>

type_synonym objectid = string

definition is_hex :: "char \<Rightarrow> bool" where
  "is_hex c = (let n = (of_char c :: nat) in
     (48 \<le> n \<and> n \<le> 57) \<or> (65 \<le> n \<and> n \<le> 70) \<or> (97 \<le> n \<and> n \<le> 102))"

definition hex_lower :: "char \<Rightarrow> char" where
  "hex_lower c = (let n = (of_char c :: nat) in if 65 \<le> n \<and> n \<le> 70 then char_of (n + 32) else c)"

definition is_hex24 :: "string \<Rightarrow> bool" where
  "is_hex24 s = (length s = 24 \<and> list_all is_hex s)"

definition ObjectId :: "string \<Rightarrow> objectid option" where
  "ObjectId s = (if is_hex24 s then Some (map hex_lower s) else None)"

record DateRange =
  startDate :: int
  endDate :: int
  range_days :: "DaySchedule list option"

record DoctorSchedule =
  s_id :: objectid
  s_doctorId :: objectid
  weekStart :: "int option"
  weekEnd :: "int option"
  days :: "DaySchedule list option"
  dateRanges :: "DateRange list option"
  allowOutsideRange :: "bool option"

text \<open>
  \<open>findOne(filter)\<close>: the first document, in the order in which the collection is scanned,
  that satisfies the filter.
\<close>

definition findOne :: "('a \<Rightarrow> bool) \<Rightarrow> 'a list \<Rightarrow> 'a option" where
  "findOne P xs = find P xs"

text \<open>The filter \<open>weekStart: {$lte: d}, weekEnd: {$gte: d}\<close>: a missing bound never matches.\<close>

definition coversDate :: "int \<Rightarrow> DoctorSchedule \<Rightarrow> bool" where
  "coversDate d s =
     (case (weekStart s, weekEnd s) of (Some ws, Some we) \<Rightarrow> ws \<le> d \<and> d \<le> we | _ \<Rightarrow> False)"

text \<open>The filter \<open>weekStart: {$exists: false}, weekEnd: {$exists: false}\<close>.\<close>

definition isGeneral :: "DoctorSchedule \<Rightarrow> bool" where
  "isGeneral s = (weekStart s = None \<and> weekEnd s = None)"

text \<open>The filter \<open>"days.dayOfWeek": w\<close>: some element of the array \<open>days\<close> has that weekday.\<close>

definition hasDay :: "string \<Rightarrow> DoctorSchedule \<Rightarrow> bool" where
  "hasDay w s = (case days s of None \<Rightarrow> False | Some ds \<Rightarrow> \<exists>d \<in> set ds. dayOfWeek d = w)"

text \<open>
  The projections \<open>days: {$elemMatch: {dayOfWeek: w}}\<close> and \<open>"days.$": 1\<close>: the first
  matching element alone, and no field \<open>days\<close> when there is none.
\<close>

definition elemMatchDay :: "string \<Rightarrow> DoctorSchedule \<Rightarrow> DaySchedule list option" where
  "elemMatchDay w s =
     (case days s of
        None \<Rightarrow> None
      | Some ds \<Rightarrow> (case find (\<lambda>d. dayOfWeek d = w) ds of None \<Rightarrow> None | Some d \<Rightarrow> Some [d]))"

text \<open>\<open>schedule.days?.length > 0\<close>.\<close>

fun nonemptyDays :: "DaySchedule list option \<Rightarrow> bool" where
  "nonemptyDays (Some (d # ds)) = True"
| "nonemptyDays _ = False"

text \<open>\<open>checkDateInRange\<close> of the optimized schedule route.\<close>

definition checkDateInRange :: "int \<Rightarrow> int option \<Rightarrow> int option \<Rightarrow> bool" where
  "checkDateInRange d ws we =
     (case (ws, we) of (Some a, Some b) \<Rightarrow> a \<le> d \<and> d \<le> b | _ \<Rightarrow> True)"

text \<open>A response: the JSON body of a success, or a status code with its error message.\<close>

datatype 'a response = Json 'a | Error nat string

section \<open>The schedule route (\<open>GET /api/schedule/[doctorId]\<close>)\<close>

text \<open>
  The handler is the second \<open>GET\<close> of src/app/api/schedule-optimized/[doctorId]/route.ts,
  the one the booking dialog calls.
\<close>

text \<open>
  The body of a successful answer: the document spread into it (\<open>...schedule\<close>), the field
  \<open>days\<close> as the client reads it, and the tags.  The echoed \<open>requestedDate\<close> and the
  \<open>message\<close> are left out.
\<close>

record ScheduleBody =
  r_schedule :: "DoctorSchedule option"
  r_days :: "DaySchedule list option"
  selectedDay :: "DaySchedule option"
  currentDateRange :: "DateRange option"
  scheduleType :: string
  isWithinRange :: "bool option"
  r_dayOfWeek :: "string option"

definition defaultDay :: "string \<Rightarrow> DaySchedule" where
  "defaultDay w =
     \<lparr>dayOfWeek = w, isOffDay = False,
      morningStart = Some ''08:00'', morningEnd = Some ''11:00'',
      eveningStart = Some ''16:00'', eveningEnd = Some ''21:00'',
      morningSlots = None, eveningSlots = None, slotduration = Some ''30'', day_date = None\<rparr>"

text \<open>The literal array of the last answer of the route.\<close>

definition scheduleDefaultDays :: "DaySchedule list" where
  "scheduleDefaultDays =
     [defaultDay ''Monday'', defaultDay ''Tuesday'', defaultDay ''Wednesday'',
      defaultDay ''Thursday'', defaultDay ''Friday'', defaultDay ''Saturday'',
      \<lparr>dayOfWeek = ''Sunday'', isOffDay = True,
       morningStart = None, morningEnd = None, eveningStart = None, eveningEnd = None,
       morningSlots = None, eveningSlots = None, slotduration = Some ''30'', day_date = None\<rparr>]"

definition spreadBody :: "DoctorSchedule \<Rightarrow> string \<Rightarrow> ScheduleBody" where
  "spreadBody s ty =
     \<lparr>r_schedule = Some s, r_days = days s, selectedDay = None, currentDateRange = None,
      scheduleType = ty, isWithinRange = None, r_dayOfWeek = None\<rparr>"

text \<open>\<open>schedule.days && schedule.days[0]?.date\<close>.\<close>

fun hasDateSpecificDays :: "DaySchedule list option \<Rightarrow> bool" where
  "hasDateSpecificDays (Some (d # ds)) = (day_date d \<noteq> None)"
| "hasDateSpecificDays _ = False"

text \<open>The answer for a week-specific document that covers the requested date.\<close>

definition weekSpecificAnswer :: "DoctorSchedule \<Rightarrow> int \<Rightarrow> ScheduleBody" where
  "weekSpecificAnswer s requestedDate =
     (case (if hasDateSpecificDays (days s)
            then find (\<lambda>day. case day_date day of
                                None \<Rightarrow> False
                              | Some dd \<Rightarrow> day_number dd = day_number requestedDate)
                   (the (days s))
            else None) of
        Some specificDay \<Rightarrow>
          (spreadBody s ''date-specific'')
            \<lparr>selectedDay := Some specificDay, isWithinRange := Some True,
             r_dayOfWeek := Some (dayOfWeek specificDay)\<rparr>
      | None \<Rightarrow>
          (spreadBody s ''week-specific'')
            \<lparr>isWithinRange := Some True, r_dayOfWeek := Some (weekdayLong requestedDate)\<rparr>)"

text \<open>The answer for the general document, with its optional date ranges.\<close>

definition generalAnswer :: "DoctorSchedule \<Rightarrow> int option \<Rightarrow> ScheduleBody" where
  "generalAnswer s date =
     (case date of
        None \<Rightarrow> spreadBody s ''general''
      | Some requestedDate \<Rightarrow>
          (case dateRanges s of
             Some ranges \<Rightarrow>
               (case find (\<lambda>range. startDate range \<le> requestedDate \<and> requestedDate \<le> endDate range)
                       ranges of
                  Some applicableRange \<Rightarrow>
                    (spreadBody s ''date-range-specific'')
                      \<lparr>currentDateRange := Some applicableRange, isWithinRange := Some True,
                       r_dayOfWeek := Some (weekdayLong requestedDate)\<rparr>
                | None \<Rightarrow>
                    if allowOutsideRange s \<noteq> Some False
                    then (spreadBody s ''general'')
                           \<lparr>isWithinRange := Some False,
                            r_dayOfWeek := Some (weekdayLong requestedDate)\<rparr>
                    else \<lparr>r_schedule = None, r_days = Some [], selectedDay = None,
                          currentDateRange = None, scheduleType = ''none'',
                          isWithinRange = Some False,
                          r_dayOfWeek = Some (weekdayLong requestedDate)\<rparr>)
           | None \<Rightarrow>
               (spreadBody s ''general'')
                 \<lparr>isWithinRange := Some True, r_dayOfWeek := Some (weekdayLong requestedDate)\<rparr>))"

text \<open>
  The handler.  \<open>date\<close> is the parsed query parameter, \<open>None\<close> when it is absent; the
  collection is \<open>doctor_schedules\<close>.
\<close>

definition schedule_GET ::
  "DoctorSchedule list \<Rightarrow> string \<Rightarrow> int option \<Rightarrow> ScheduleBody response" where
  "schedule_GET doctor_schedules doctorId date =
     (if \<not> is_hex24 doctorId then Error 400 ''Invalid doctor ID format''
      else
        let did = map hex_lower doctorId in
        case (case date of
                None \<Rightarrow> None
              | Some requestedDate \<Rightarrow>
                  map_option (\<lambda>s. weekSpecificAnswer s requestedDate)
                    (findOne (\<lambda>s. s_doctorId s = did \<and> coversDate requestedDate s)
                       doctor_schedules)) of
          Some body \<Rightarrow> Json body
        | None \<Rightarrow>
            (case findOne (\<lambda>s. s_doctorId s = did \<and> isGeneral s) doctor_schedules of
               Some s \<Rightarrow> Json (generalAnswer s date)
             | None \<Rightarrow>
                 (case findOne (\<lambda>s. s_doctorId s = did) doctor_schedules of
                    Some s \<Rightarrow>
                      Json (spreadBody s (if weekStart s \<noteq> None then ''week-specific-fallback''
                                          else ''general-fallback''))
                  | None \<Rightarrow>
                      Json \<lparr>r_schedule = None, r_days = Some scheduleDefaultDays,
                            selectedDay = None, currentDateRange = None,
                            scheduleType = ''default'', isWithinRange = Some True,
                            r_dayOfWeek = None\<rparr>)))"

text \<open>
  \<open>generateTimeSlots(scheduleData)\<close> of the booking dialog, which reads the answer of the
  schedule route.  \<open>old\<close> is the pair of slot lists displayed before the call: it stays when
  no date is selected.
\<close>

definition findDay :: "string \<Rightarrow> DaySchedule list option \<Rightarrow> DaySchedule option" where
  "findDay w ds = (case ds of None \<Rightarrow> None | Some l \<Rightarrow> find (\<lambda>day. dayOfWeek day = w) l)"

definition dialog_generateTimeSlots ::
  "int option \<Rightarrow> (TimeSlot list \<times> TimeSlot list) \<Rightarrow> ScheduleBody \<Rightarrow>
   (TimeSlot list \<times> TimeSlot list) option" where
  "dialog_generateTimeSlots selectedDate old scheduleData =
     (case selectedDate of
        None \<Rightarrow> Some old
      | Some sd \<Rightarrow>
          let w = weekdayLong sd in
          case (case currentDateRange scheduleData of
                  None \<Rightarrow> None
                | Some dateRangeSchedule \<Rightarrow> findDay w (range_days dateRangeSchedule)) of
            Some daySchedule \<Rightarrow> generateSlotsForDay daySchedule
          | None \<Rightarrow>
              (case findDay w (r_days scheduleData) of
                 None \<Rightarrow> Some ([], [])
               | Some daySchedule \<Rightarrow>
                   if isOffDay daySchedule then Some ([], [])
                   else generateSlotsForDay daySchedule))"

section \<open>The slots route (\<open>GET /api/slots/optimized\<close>)\<close>

text \<open>The handler is \<open>GET\<close> of src/app/api/slots/optimized/route.ts.\<close>

record SlotsBody =
  schedule :: schedule_payload
  queryType :: string
  optimized :: bool
  sl_dayOfWeek :: "string option"

definition dayAnswer :: "DaySchedule list option \<Rightarrow> string \<Rightarrow> string \<Rightarrow> SlotsBody" where
  "dayAnswer ds qt w =
     \<lparr>schedule = OneDay (hd (the ds)), queryType = qt, optimized = True, sl_dayOfWeek = Some w\<rparr>"

text \<open>Strategy 4: any document of the doctor, filtered in the handler.\<close>

definition fallbackAnswer :: "DoctorSchedule \<Rightarrow> string option \<Rightarrow> SlotsBody" where
  "fallbackAnswer s targetDay =
     (case (case targetDay of None \<Rightarrow> None | Some w \<Rightarrow> findDay w (days s)) of
        Some daySchedule \<Rightarrow>
          \<lparr>schedule = OneDay daySchedule, queryType = ''fallback-full-schedule'',
           optimized = False, sl_dayOfWeek = targetDay\<rparr>
      | None \<Rightarrow>
          \<lparr>schedule = WholeWeek (days s), queryType = ''full-week-schedule'',
           optimized = False, sl_dayOfWeek = None\<rparr>)"

text \<open>Strategies 3 and 4 and the final 404, shared by the paths with and without a date.\<close>

definition slots_tail ::
  "DoctorSchedule list \<Rightarrow> objectid \<Rightarrow> int option \<Rightarrow> string option \<Rightarrow> SlotsBody response" where
  "slots_tail doctor_schedules did date dayOfWeek_param =
     (case (if truthy dayOfWeek_param
            then (case findOne (\<lambda>s. s_doctorId s = did \<and> hasDay (the dayOfWeek_param) s)
                         doctor_schedules of
                    None \<Rightarrow> None
                  | Some s \<Rightarrow>
                      if nonemptyDays (elemMatchDay (the dayOfWeek_param) s)
                      then Some (dayAnswer (elemMatchDay (the dayOfWeek_param) s) ''direct-day-lookup''
                                   (the dayOfWeek_param))
                      else None)
            else None) of
        Some body \<Rightarrow> Json body
      | None \<Rightarrow>
          (case findOne (\<lambda>s. s_doctorId s = did) doctor_schedules of
             Some s \<Rightarrow>
               Json (fallbackAnswer s
                       (if truthy dayOfWeek_param then dayOfWeek_param else map_option weekdayLong date))
           | None \<Rightarrow> Error 404 ''No schedule found''))"

definition slots_optimized_GET ::
  "DoctorSchedule list \<Rightarrow> string option \<Rightarrow> int option \<Rightarrow> string option \<Rightarrow> SlotsBody response" where
  "slots_optimized_GET doctor_schedules doctorId date dayOfWeek_param =
     (if \<not> truthy doctorId then Error 400 ''Doctor ID is required''
      else if \<not> is_hex24 (the doctorId) then Error 400 ''Invalid doctor ID format''
      else
        let did = map hex_lower (the doctorId) in
        case date of
          None \<Rightarrow> slots_tail doctor_schedules did date dayOfWeek_param
        | Some requestedDate \<Rightarrow>
            let calculatedDayOfWeek = weekdayLong requestedDate in
            case (case findOne (\<lambda>s. s_doctorId s = did \<and> coversDate requestedDate s)
                         doctor_schedules of
                    None \<Rightarrow> None
                  | Some s \<Rightarrow>
                      if nonemptyDays (elemMatchDay calculatedDayOfWeek s)
                      then Some (dayAnswer (elemMatchDay calculatedDayOfWeek s) ''week-specific''
                                   calculatedDayOfWeek)
                      else None) of
              Some body \<Rightarrow> Json body
            | None \<Rightarrow>
                (case (case findOne (\<lambda>s. s_doctorId s = did \<and> isGeneral s \<and>
                                          hasDay calculatedDayOfWeek s) doctor_schedules of
                         None \<Rightarrow> None
                       | Some s \<Rightarrow>
                           if nonemptyDays (elemMatchDay calculatedDayOfWeek s)
                           then Some (dayAnswer (elemMatchDay calculatedDayOfWeek s)
                                        ''general-specific-day'' calculatedDayOfWeek)
                           else None) of
                   Some body \<Rightarrow> Json body
                 | None \<Rightarrow> slots_tail doctor_schedules did date dayOfWeek_param))"

section \<open>The optimized schedule route (\<open>GET /api/schedule-optimized/[doctorId]\<close>)\<close>

text \<open>
  The handler is the first \<open>GET\<close> of src/app/api/schedule-optimized/[doctorId]/route.ts.
  The index hints of the queries choose an access path only and are left out, as is the
  creation of the indexes before the queries.
\<close>

record OptBody =
  o_schedule :: "DoctorSchedule option"
  o_days :: "DaySchedule list option"
  o_selectedDay :: "DaySchedule option"
  o_scheduleType :: string
  queryStrategy :: string
  o_isWithinRange :: "bool option"
  o_dayOfWeek :: "string option"

text \<open>\<open>getDefaultSchedule\<close>.\<close>

definition getDefaultSchedule :: "DaySchedule list" where
  "getDefaultSchedule =
     map (\<lambda>w. \<lparr>dayOfWeek = w, isOffDay = (w = ''Sunday''),
                morningStart = (if w = ''Sunday'' then None else Some ''09:00''),
                morningEnd = (if w = ''Sunday'' then None else Some ''12:00''),
                eveningStart = (if w = ''Sunday'' then None else Some ''14:00''),
                eveningEnd = (if w = ''Sunday'' then None else Some ''18:00''),
                morningSlots = None, eveningSlots = None,
                slotduration = Some ''30'', day_date = None\<rparr>)
       [''Monday'', ''Tuesday'', ''Wednesday'', ''Thursday'', ''Friday'', ''Saturday'', ''Sunday'']"

text \<open>A document after a projection that keeps one day: the fields not projected are gone.\<close>

definition projectDay :: "string \<Rightarrow> bool \<Rightarrow> bool \<Rightarrow> DoctorSchedule \<Rightarrow> DoctorSchedule" where
  "projectDay w keepWeek keepAllow s =
     s\<lparr>days := elemMatchDay w s,
       weekStart := (if keepWeek then weekStart s else None),
       weekEnd := (if keepWeek then weekEnd s else None),
       dateRanges := None,
       allowOutsideRange := (if keepAllow then allowOutsideRange s else None)\<rparr>"

definition optDayAnswer ::
  "DoctorSchedule \<Rightarrow> string \<Rightarrow> string \<Rightarrow> bool option \<Rightarrow> string \<Rightarrow> OptBody" where
  "optDayAnswer p ty qs within w =
     \<lparr>o_schedule = Some p, o_days = days p, o_selectedDay = Some (hd (the (days p))),
      o_scheduleType = ty, queryStrategy = qs, o_isWithinRange = within, o_dayOfWeek = Some w\<rparr>"

definition optFullAnswer ::
  "DoctorSchedule \<Rightarrow> string \<Rightarrow> string \<Rightarrow> bool option \<Rightarrow> string option \<Rightarrow> OptBody" where
  "optFullAnswer s ty qs within w =
     \<lparr>o_schedule = Some s, o_days = days s, o_selectedDay = None,
      o_scheduleType = ty, queryStrategy = qs, o_isWithinRange = within, o_dayOfWeek = w\<rparr>"

text \<open>Strategies 1 to 3, which ask for the day; \<open>None\<close> when none of them answers.\<close>

definition optDayStrategies ::
  "DoctorSchedule list \<Rightarrow> objectid \<Rightarrow> int option \<Rightarrow> string \<Rightarrow> OptBody option" where
  "optDayStrategies doctor_schedules did date w =
     (case (case date of
              None \<Rightarrow> None
            | Some requestedDate \<Rightarrow>
                (case findOne (\<lambda>s. s_doctorId s = did \<and> coversDate requestedDate s \<and> hasDay w s)
                        doctor_schedules of
                   None \<Rightarrow> None
                 | Some s \<Rightarrow>
                     let p = projectDay w True False s in
                     if nonemptyDays (days p)
                     then Some (optDayAnswer p ''week-specific-optimized''
                                  ''week-specific-day-optimized'' (Some True) w)
                     else None)) of
        Some body \<Rightarrow> Some body
      | None \<Rightarrow>
          (case (case findOne (\<lambda>s. s_doctorId s = did \<and> isGeneral s \<and> hasDay w s)
                        doctor_schedules of
                   None \<Rightarrow> None
                 | Some s \<Rightarrow>
                     let p = projectDay w False True s in
                     if nonemptyDays (days p)
                     then Some (optDayAnswer p ''general-optimized'' ''general-day-optimized''
                                  None w)
                     else None) of
             Some body \<Rightarrow> Some body
           | None \<Rightarrow>
               (case findOne (\<lambda>s. s_doctorId s = did \<and> hasDay w s) doctor_schedules of
                  None \<Rightarrow> None
                | Some s \<Rightarrow>
                    let p = projectDay w True False s in
                    if nonemptyDays (days p)
                    then Some (optDayAnswer p
                                 (if weekStart p \<noteq> None then ''week-specific-fallback''
                                  else ''general-fallback'')
                                 ''any-schedule-day-filter''
                                 (Some (case date of
                                          None \<Rightarrow> True
                                        | Some d \<Rightarrow> checkDateInRange d (weekStart p) (weekEnd p)))
                                 w)
                    else None)))"

definition schedule_optimized_GET ::
  "DoctorSchedule list \<Rightarrow> string \<Rightarrow> int option \<Rightarrow> string option \<Rightarrow> OptBody response" where
  "schedule_optimized_GET doctor_schedules doctorId date dayOfWeek_param =
     (if \<not> is_hex24 doctorId then Error 400 ''Invalid doctor ID format''
      else
        let did = map hex_lower doctorId;
            dayOfWeekToSearch =
              (if date \<noteq> None \<and> \<not> truthy dayOfWeek_param then Some (weekdayLong (the date))
               else dayOfWeek_param)
        in
        case (if truthy dayOfWeekToSearch
              then optDayStrategies doctor_schedules did date (the dayOfWeekToSearch)
              else None) of
          Some body \<Rightarrow> Json body
        | None \<Rightarrow>
            (case (case date of
                     None \<Rightarrow> None
                   | Some requestedDate \<Rightarrow>
                       findOne (\<lambda>s. s_doctorId s = did \<and> coversDate requestedDate s)
                         doctor_schedules) of
               Some s \<Rightarrow>
                 Json (optFullAnswer s ''week-specific-full'' ''week-specific-full'' (Some True)
                         dayOfWeekToSearch)
             | None \<Rightarrow>
                 (case findOne (\<lambda>s. s_doctorId s = did \<and> isGeneral s) doctor_schedules of
                    Some s \<Rightarrow>
                      Json (optFullAnswer s ''general-full'' ''general-full'' None
                              dayOfWeekToSearch)
                  | None \<Rightarrow>
                      (case findOne (\<lambda>s. s_doctorId s = did) doctor_schedules of
                         Some s \<Rightarrow>
                           Json (optFullAnswer s ''any-available'' ''any-schedule''
                                   (case date of
                                      None \<Rightarrow> None
                                    | Some d \<Rightarrow>
                                        Some (checkDateInRange d (weekStart s) (weekEnd s)))
                                   dayOfWeekToSearch)
                       | None \<Rightarrow>
                           Json \<lparr>o_schedule = None, o_days = Some getDefaultSchedule,
                                 o_selectedDay = None, o_scheduleType = ''default'',
                                 queryStrategy = ''fallback-default'',
                                 o_isWithinRange = None, o_dayOfWeek = None\<rparr>))))"

text \<open>
  The slot booking component: it asks the slots route for the selected date, sending the
  weekday it computed, and hands \<open>data.schedule\<close> to \<open>processScheduleSlots\<close>.  The lists
  stay as they were (initially empty) when the route answers with an error.
\<close>

definition fetchOptimizedSchedule ::
  "DoctorSchedule list \<Rightarrow> string \<Rightarrow> int \<Rightarrow> (TimeSlot list \<times> TimeSlot list) \<Rightarrow>
   (TimeSlot list \<times> TimeSlot list) option" where
  "fetchOptimizedSchedule doctor_schedules doctorId selectedDate old =
     (case slots_optimized_GET doctor_schedules (Some doctorId) (Some selectedDate)
             (Some (weekdayLong selectedDate)) of
        Error code msg \<Rightarrow> Some old
      | Json data \<Rightarrow>
          (case schedule data of
             WholeWeek None \<Rightarrow> Some old
           | payload \<Rightarrow> processScheduleSlots (Some payload)))"

text \<open>The booking dialog: it asks the schedule route and runs its own slot generation.\<close>

definition fetchAvailableSlots ::
  "DoctorSchedule list \<Rightarrow> string \<Rightarrow> int \<Rightarrow> (TimeSlot list \<times> TimeSlot list) \<Rightarrow>
   (TimeSlot list \<times> TimeSlot list) option" where
  "fetchAvailableSlots doctor_schedules doctorId selectedDate old =
     (case schedule_GET doctor_schedules doctorId (Some selectedDate) of
        Error code msg \<Rightarrow> Some ([], [])
      | Json data \<Rightarrow> dialog_generateTimeSlots (Some selectedDate) old data)"

section \<open>Appointments\<close>

record Appointment =
  oid :: objectid
  appointmentKey :: string
  doctorId :: objectid
  patientId :: objectid
  date :: string
  time :: string
  sessionStartTime :: string
  status :: string
  doctorName :: string
  patientName :: string
  Adrees :: string
  createdAt :: int
  updatedAt :: int

record Patient =
  p_id :: objectid
  name :: "string option"

text \<open>
  The database: the collection \<open>appointments\<close>, the collection \<open>_appointment\<close> of
  requests, the patients, and whether the unique index on \<open>appointmentKey\<close> (created by the
  optimization script and route) is present on \<open>appointments\<close>.
\<close>

record Db =
  appointments :: "Appointment list"
  requests :: "Appointment list"
  patients :: "Patient list"
  appointmentKey_idx :: bool

text \<open>
  What a handler takes from its environment: the id made by \<open>new ObjectId()\<close>, the integer
  part of \<open>Math.random() * 900000\<close>, and the clock.
\<close>

record Env =
  newId :: objectid
  random900000 :: nat
  now :: int

record BookingBody =
  b_doctorId :: "string option"
  b_patientId :: "string option"
  b_date :: "string option"
  b_time :: "string option"
  b_doctorName :: "string option"
  b_patientName :: "string option"
  b_doctorAddress :: "string option"
  b_appointmentKey :: "string option"
  b_autoConfirm :: bool

text \<open>\<open>Math.floor(100000 + Math.random() * 900000).toString()\<close>: six decimal digits.\<close>

definition generateAppointmentKey :: "nat \<Rightarrow> string" where
  "generateAppointmentKey r =
     map (\<lambda>i. char_of (48 + ((100000 + r) div 10 ^ i) mod 10)) [5, 4, 3, 2, 1, 0 :: nat]"

text \<open>The conflict filter \<open>{doctorId, date, time, status: {$in: ["confirmed", "pending"]}}\<close>.\<close>

definition slotTaken :: "objectid \<Rightarrow> string \<Rightarrow> string \<Rightarrow> Appointment \<Rightarrow> bool" where
  "slotTaken did d t a =
     (doctorId a = did \<and> date a = d \<and> time a = t \<and>
      (status a = ''confirmed'' \<or> status a = ''pending''))"

text \<open>The filter \<open>{doctorId, date, time, status: "pending"}\<close> on the requests.\<close>

definition requestPending :: "objectid \<Rightarrow> string \<Rightarrow> string \<Rightarrow> Appointment \<Rightarrow> bool" where
  "requestPending did d t a =
     (doctorId a = did \<and> date a = d \<and> time a = t \<and> status a = ''pending'')"

text \<open>
  \<open>insertOne\<close>: the document goes to the end of the collection; it throws (\<open>None\<close>) on a
  duplicate \<open>_id\<close>, and on a duplicate key when the unique index is present.
\<close>

definition insertOne :: "bool \<Rightarrow> Appointment \<Rightarrow> Appointment list \<Rightarrow> Appointment list option" where
  "insertOne uniqueKey a coll =
     (if oid a \<in> set (map oid coll) then None
      else if uniqueKey \<and> appointmentKey a \<in> set (map appointmentKey coll) then None
      else Some (coll @ [a]))"

text \<open>\<open>patient?.name || "Unknown Patient"\<close> for the patient found by its id.\<close>

definition patientNameOf :: "Patient list \<Rightarrow> objectid \<Rightarrow> string" where
  "patientNameOf ps pid =
     (case findOne (\<lambda>p. p_id p = pid) ps of
        None \<Rightarrow> ''Unknown Patient''
      | Some p \<Rightarrow> or_default (name p) ''Unknown Patient'')"

text \<open>The document both booking handlers build.\<close>

definition newAppointment ::
  "Env \<Rightarrow> string \<Rightarrow> objectid \<Rightarrow> objectid \<Rightarrow> string \<Rightarrow> string \<Rightarrow> string option \<Rightarrow> string \<Rightarrow>
   string option \<Rightarrow> Appointment" where
  "newAppointment env key did pid d t dName finalPatientName dAddress =
     \<lparr>oid = newId env, appointmentKey = key, doctorId = did, patientId = pid,
      date = d, time = t, sessionStartTime = t, status = ''pending'',
      doctorName = or_default dName ''Unknown Doctor'', patientName = finalPatientName,
      Adrees = or_default dAddress [], createdAt = now env, updatedAt = now env\<rparr>"

section \<open>Booking (\<open>POST /api/appointments\<close>)\<close>

text \<open>
  \<open>POST\<close> of src/app/api/appointments/route.ts.
  The handler returns its answer and the database after it.  An exception anywhere
  (\<open>new ObjectId\<close> on a malformed id, a failed insert) is caught by the handler and
  answered with status 500; nothing has been written then.
\<close>

definition appointments_POST :: "Env \<Rightarrow> Db \<Rightarrow> BookingBody \<Rightarrow> Appointment response \<times> Db" where
  "appointments_POST env db body =
     (if \<not> truthy (b_doctorId body) \<or> \<not> truthy (b_patientId body) \<or>
         \<not> truthy (b_date body) \<or> \<not> truthy (b_time body)
      then (Error 400 ''Missing required fields'', db)
      else
        case ObjectId (the (b_doctorId body)) of
          None \<Rightarrow> (Error 500 ''Failed to create appointment'', db)
        | Some did \<Rightarrow>
            (case findOne (slotTaken did (the (b_date body)) (the (b_time body)))
                    (appointments db) of
               Some existingAppointment \<Rightarrow> (Error 400 ''Time slot already booked'', db)
             | None \<Rightarrow>
                 let finalAppointmentKey =
                       (if truthy (b_appointmentKey body) then the (b_appointmentKey body)
                        else generateAppointmentKey (random900000 env))
                 in
                 case ObjectId (the (b_patientId body)) of
                   None \<Rightarrow> (Error 500 ''Failed to create appointment'', db)
                 | Some pid \<Rightarrow>
                     let finalPatientName =
                           (if truthy (b_patientName body) then the (b_patientName body)
                            else patientNameOf (patients db) pid);
                         appointment =
                           newAppointment env finalAppointmentKey did pid (the (b_date body))
                             (the (b_time body)) (b_doctorName body) finalPatientName
                             (b_doctorAddress body)
                     in
                     case insertOne (appointmentKey_idx db) appointment (appointments db) of
                       None \<Rightarrow> (Error 500 ''Failed to create appointment'', db)
                     | Some coll \<Rightarrow> (Json appointment, db\<lparr>appointments := coll\<rparr>)))"

section \<open>Booking requests (\<open>POST /api/appointment-requests\<close>)\<close>

text \<open>
  \<open>POST\<close> of src/app/api/appointment-requests/route.ts: the same conflict query, a second
  query for a pending request of the slot, and an insert into \<open>appointments\<close> or into
  \<open>_appointment\<close>.
\<close>

definition appointment_requests_POST ::
  "Env \<Rightarrow> Db \<Rightarrow> BookingBody \<Rightarrow> Appointment response \<times> Db" where
  "appointment_requests_POST env db body =
     (if \<not> truthy (b_doctorId body) \<or> \<not> truthy (b_patientId body) \<or>
         \<not> truthy (b_date body) \<or> \<not> truthy (b_time body)
      then (Error 400 ''Missing required fields'', db)
      else
        case ObjectId (the (b_doctorId body)) of
          None \<Rightarrow> (Error 500 ''Failed to create appointment request'', db)
        | Some did \<Rightarrow>
            (case findOne (slotTaken did (the (b_date body)) (the (b_time body)))
                    (appointments db) of
               Some existingAppointment \<Rightarrow> (Error 400 ''Time slot already booked'', db)
             | None \<Rightarrow>
                 (case findOne (requestPending did (the (b_date body)) (the (b_time body)))
                         (requests db) of
                    Some existingRequest \<Rightarrow>
                      (Error 400 ''Appointment request already exists for this slot'', db)
                  | None \<Rightarrow>
                      let key = generateAppointmentKey (random900000 env) in
                      case ObjectId (the (b_patientId body)) of
                        None \<Rightarrow> (Error 500 ''Failed to create appointment request'', db)
                      | Some pid \<Rightarrow>
                          let finalPatientName =
                                (if truthy (b_patientName body) then the (b_patientName body)
                                 else patientNameOf (patients db) pid);
                              appointment =
                                newAppointment env key did pid (the (b_date body))
                                  (the (b_time body)) (b_doctorName body) finalPatientName
                                  (b_doctorAddress body)
                          in
                          if b_autoConfirm body then
                            (case insertOne (appointmentKey_idx db) appointment
                                    (appointments db) of
                               None \<Rightarrow> (Error 500 ''Failed to create appointment request'', db)
                             | Some coll \<Rightarrow> (Json appointment, db\<lparr>appointments := coll\<rparr>))
                          else
                            (case insertOne False appointment (requests db) of
                               None \<Rightarrow> (Error 500 ''Failed to create appointment request'', db)
                             | Some coll \<Rightarrow> (Json appointment, db\<lparr>requests := coll\<rparr>)))))"

section \<open>Cancellation (\<open>PUT /api/appointments\<close>)\<close>

text \<open>\<open>PUT\<close> of src/app/api/appointments/route.ts.  A field of the body is a string or absent.\<close>

record CancelBody =
  c_appointmentId :: "string option"
  c_status :: "string option"
  c_patientId :: "string option"

text \<open>
  \<open>updateOne({_id}, {$set: {status: "cancelled", updatedAt: new Date()}})\<close>: the first
  document with that id is rewritten; the count is 1 when the document changed.
\<close>

fun updateOne_cancel :: "objectid \<Rightarrow> int \<Rightarrow> Appointment list \<Rightarrow> Appointment list \<times> nat" where
  "updateOne_cancel i t [] = ([], 0)"
| "updateOne_cancel i t (a # as) =
     (if oid a = i
      then (a\<lparr>status := ''cancelled'', updatedAt := t\<rparr> # as,
            if a\<lparr>status := ''cancelled'', updatedAt := t\<rparr> = a then 0 else 1)
      else (case updateOne_cancel i t as of (as', n) \<Rightarrow> (a # as', n)))"

definition appointments_PUT :: "Env \<Rightarrow> Db \<Rightarrow> CancelBody \<Rightarrow> unit response \<times> Db" where
  "appointments_PUT env db body =
     (if \<not> truthy (c_appointmentId body) \<or> \<not> truthy (c_status body) \<or>
         \<not> truthy (c_patientId body)
      then (Error 400 ''Missing required fields'', db)
      else if the (c_status body) \<noteq> ''cancelled''
      then (Error 403 ''Patients can only cancel appointments'', db)
      else if \<not> is_hex24 (the (c_appointmentId body)) \<or> \<not> is_hex24 (the (c_patientId body))
      then (Error 400 ''Invalid ID format'', db)
      else
        let aid = map hex_lower (the (c_appointmentId body));
            pid = map hex_lower (the (c_patientId body))
        in
        case findOne (\<lambda>a. oid a = aid \<and> patientId a = pid) (appointments db) of
          None \<Rightarrow> (Error 404 ''Appointment not found or unauthorized'', db)
        | Some appointment \<Rightarrow>
            if status appointment = ''cancelled''
            then (Error 400 ''Appointment is already cancelled'', db)
            else
              (case updateOne_cancel aid (now env) (appointments db) of
                 (coll, modifiedCount) \<Rightarrow>
                   if modifiedCount = 0
                   then (Error 500 ''Failed to cancel appointment'', db\<lparr>appointments := coll\<rparr>)
                   else (Json (), db\<lparr>appointments := coll\<rparr>)))"

section \<open>The booking handler between its awaits\<close>

text \<open>
  The handler of \<open>POST /api/appointments\<close> gives control back at each \<open>await\<close> of a
  database call, and other requests are served meanwhile.  Its database calls, each atomic
  on its own, are the conflict query, the patient lookup and the insert.  \<open>booking_step\<close>
  runs the handler up to and including its next database call.
\<close>

datatype booking_pc =
    AtCheck
  | AtPatient objectid
  | AtInsert Appointment
  | Finished "Appointment response"

fun booking_step :: "Env \<Rightarrow> BookingBody \<Rightarrow> booking_pc \<Rightarrow> Db \<Rightarrow> booking_pc \<times> Db" where
  "booking_step env body AtCheck db =
     (if \<not> truthy (b_doctorId body) \<or> \<not> truthy (b_patientId body) \<or>
         \<not> truthy (b_date body) \<or> \<not> truthy (b_time body)
      then (Finished (Error 400 ''Missing required fields''), db)
      else
        case ObjectId (the (b_doctorId body)) of
          None \<Rightarrow> (Finished (Error 500 ''Failed to create appointment''), db)
        | Some did \<Rightarrow>
            (case findOne (slotTaken did (the (b_date body)) (the (b_time body)))
                    (appointments db) of
               Some existingAppointment \<Rightarrow> (Finished (Error 400 ''Time slot already booked''), db)
             | None \<Rightarrow> (AtPatient did, db)))"
| "booking_step env body (AtPatient did) db =
     (let finalAppointmentKey =
            (if truthy (b_appointmentKey body) then the (b_appointmentKey body)
             else generateAppointmentKey (random900000 env))
      in
      case ObjectId (the (b_patientId body)) of
        None \<Rightarrow> (Finished (Error 500 ''Failed to create appointment''), db)
      | Some pid \<Rightarrow>
          let finalPatientName =
                (if truthy (b_patientName body) then the (b_patientName body)
                 else patientNameOf (patients db) pid)
          in (AtInsert (newAppointment env finalAppointmentKey did pid (the (b_date body))
                          (the (b_time body)) (b_doctorName body) finalPatientName
                          (b_doctorAddress body)), db))"
| "booking_step env body (AtInsert appointment) db =
     (case insertOne (appointmentKey_idx db) appointment (appointments db) of
        None \<Rightarrow> (Finished (Error 500 ''Failed to create appointment''), db)
      | Some coll \<Rightarrow> (Finished (Json appointment), db\<lparr>appointments := coll\<rparr>))"
| "booking_step env body (Finished r) db = (Finished r, db)"

text \<open>One request served alone: its three steps in a row.\<close>

definition booking_alone :: "Env \<Rightarrow> BookingBody \<Rightarrow> Db \<Rightarrow> booking_pc \<times> Db" where
  "booking_alone env body db =
     (case booking_step env body AtCheck db of
        (pc1, db1) \<Rightarrow>
          (case booking_step env body pc1 db1 of
             (pc2, db2) \<Rightarrow> booking_step env body pc2 db2))"

text \<open>
  Two requests served concurrently.  A schedule says which of the two handlers makes the
  next step: \<open>False\<close> the first, \<open>True\<close> the second.
\<close>

record Two =
  pcA :: booking_pc
  pcB :: booking_pc
  store :: Db

fun concurrent ::
  "Env \<Rightarrow> BookingBody \<Rightarrow> Env \<Rightarrow> BookingBody \<Rightarrow> bool list \<Rightarrow> Two \<Rightarrow> Two" where
  "concurrent envA bodyA envB bodyB [] s = s"
| "concurrent envA bodyA envB bodyB (False # sched) s =
     (case booking_step envA bodyA (pcA s) (store s) of
        (pc, db) \<Rightarrow> concurrent envA bodyA envB bodyB sched (s\<lparr>pcA := pc, store := db\<rparr>))"
| "concurrent envA bodyA envB bodyB (True # sched) s =
     (case booking_step envB bodyB (pcB s) (store s) of
        (pc, db) \<Rightarrow> concurrent envA bodyA envB bodyB sched (s\<lparr>pcB := pc, store := db\<rparr>))"

definition bookTwice :: "Env \<Rightarrow> BookingBody \<Rightarrow> Env \<Rightarrow> BookingBody \<Rightarrow> bool list \<Rightarrow> Db \<Rightarrow> Two" where
  "bookTwice envA bodyA envB bodyB sched db =
     concurrent envA bodyA envB bodyB sched \<lparr>pcA = AtCheck, pcB = AtCheck, store = db\<rparr>"

section \<open>Predicates and sample data used in the statements\<close>

text \<open>
  The slot of doctor \<open>doctor\<close> (the id as the request spells it) on \<open>d\<close> at \<open>t\<close> is held:
  the collection \<open>appointments\<close> has an appointment for exactly that triple whose status is
  pending or confirmed.
\<close>

definition slotHeld :: "Db \<Rightarrow> string \<Rightarrow> string \<Rightarrow> string \<Rightarrow> bool" where
  "slotHeld db doctor d t =
     (case ObjectId doctor of
        None \<Rightarrow> False
      | Some did \<Rightarrow> list_ex (slotTaken did d t) (appointments db))"

text \<open>A pending request for the triple is in the collection \<open>_appointment\<close>.\<close>

definition requestHeld :: "Db \<Rightarrow> string \<Rightarrow> string \<Rightarrow> string \<Rightarrow> bool" where
  "requestHeld db doctor d t =
     (case ObjectId doctor of
        None \<Rightarrow> False
      | Some did \<Rightarrow> list_ex (requestPending did d t) (requests db))"

text \<open>The key the booking handler gives to the new appointment.\<close>

definition bookingKey :: "Env \<Rightarrow> BookingBody \<Rightarrow> string" where
  "bookingKey env body =
     (if truthy (b_appointmentKey body) then the (b_appointmentKey body)
      else generateAppointmentKey (random900000 env))"

text \<open>
  The insert of a new appointment with that id and key goes through: the id is new, and
  so is the key when the unique index is present.
\<close>

definition insertable :: "Db \<Rightarrow> objectid \<Rightarrow> string \<Rightarrow> bool" where
  "insertable db i k =
     (i \<notin> set (map oid (appointments db)) \<and>
      (appointmentKey_idx db \<longrightarrow> k \<notin> set (map appointmentKey (appointments db))))"

text \<open>An off Monday inside a date range of a general schedule.\<close>

definition offMonday :: DaySchedule where
  "offMonday =
     \<lparr>dayOfWeek = ''Monday'', isOffDay = True,
      morningStart = Some ''09:00'', morningEnd = Some ''10:00'',
      eveningStart = None, eveningEnd = None,
      morningSlots = Some [''09:00'', ''09:30''], eveningSlots = None,
      slotduration = Some ''30'', day_date = None\<rparr>"

definition rangeSchedule :: DoctorSchedule where
  "rangeSchedule =
     \<lparr>s_id = ''bbbbbbbbbbbbbbbbbbbbbbbb'', s_doctorId = ''aaaaaaaaaaaaaaaaaaaaaaaa'',
      weekStart = None, weekEnd = None, days = Some [],
      dateRanges = Some [\<lparr>startDate = 1756684800000, endDate = 1759190400000,
                          range_days = Some [offMonday]\<rparr>],
      allowOutsideRange = None\<rparr>"

text \<open>
  Two patients ask for the same slot of the same doctor, Monday 2025-09-15 at 09:00, in an
  empty database.
\<close>

definition emptyDb :: Db where
  "emptyDb = \<lparr>appointments = [], requests = [], patients = [], appointmentKey_idx = True\<rparr>"

definition envA :: Env where
  "envA = \<lparr>newId = ''c00000000000000000000001'', random900000 = 23456, now = 1757000000000\<rparr>"

definition envB :: Env where
  "envB = \<lparr>newId = ''c00000000000000000000002'', random900000 = 554321, now = 1757000060000\<rparr>"

definition bodyA :: BookingBody where
  "bodyA =
     \<lparr>b_doctorId = Some ''aaaaaaaaaaaaaaaaaaaaaaaa'', b_patientId = Some ''111111111111111111111111'',
      b_date = Some ''2025-09-15'', b_time = Some ''09:00'', b_doctorName = Some ''Dr X'',
      b_patientName = Some ''Patient A'', b_doctorAddress = None, b_appointmentKey = None,
      b_autoConfirm = False\<rparr>"

definition bodyB :: BookingBody where
  "bodyB =
     \<lparr>b_doctorId = Some ''aaaaaaaaaaaaaaaaaaaaaaaa'', b_patientId = Some ''222222222222222222222222'',
      b_date = Some ''2025-09-15'', b_time = Some ''09:00'', b_doctorName = Some ''Dr X'',
      b_patientName = Some ''Patient B'', b_doctorAddress = None, b_appointmentKey = None,
      b_autoConfirm = False\<rparr>"

text \<open>The appointments the two requests create when they succeed.\<close>

definition apptA :: Appointment where
  "apptA =
     \<lparr>oid = ''c00000000000000000000001'', appointmentKey = ''123456'',
      doctorId = ''aaaaaaaaaaaaaaaaaaaaaaaa'', patientId = ''111111111111111111111111'',
      date = ''2025-09-15'', time = ''09:00'', sessionStartTime = ''09:00'', status = ''pending'',
      doctorName = ''Dr X'', patientName = ''Patient A'', Adrees = [],
      createdAt = 1757000000000, updatedAt = 1757000000000\<rparr>"

definition apptB :: Appointment where
  "apptB =
     \<lparr>oid = ''c00000000000000000000002'', appointmentKey = ''654321'',
      doctorId = ''aaaaaaaaaaaaaaaaaaaaaaaa'', patientId = ''222222222222222222222222'',
      date = ''2025-09-15'', time = ''09:00'', sessionStartTime = ''09:00'', status = ''pending'',
      doctorName = ''Dr X'', patientName = ''Patient B'', Adrees = [],
      createdAt = 1757000060000, updatedAt = 1757000060000\<rparr>"

text \<open>The database in which the first patient holds the slot.\<close>

definition dbA :: Db where
  "dbA = emptyDb\<lparr>appointments := [apptA]\<rparr>"

text \<open>The database in which only a request of the second patient is pending for the slot.\<close>

definition dbRequested :: Db where
  "dbRequested = emptyDb\<lparr>requests := [apptB]\<rparr>"

text \<open>The request by which the first patient cancels, and its clock.\<close>

definition cancelA :: CancelBody where
  "cancelA =
     \<lparr>c_appointmentId = Some ''c00000000000000000000001'', c_status = Some ''cancelled'',
      c_patientId = Some ''111111111111111111111111''\<rparr>"

definition envC :: Env where
  "envC = \<lparr>newId = ''c00000000000000000000003'', random900000 = 0, now = 1757000030000\<rparr>"

text \<open>The database after the first patient has cancelled.\<close>

definition dbCancelled :: Db where
  "dbCancelled =
     emptyDb\<lparr>appointments := [apptA\<lparr>status := ''cancelled'', updatedAt := 1757000030000\<rparr>]\<rparr>"

text \<open>
  Schedule documents of one doctor: one for the week of Monday 2025-09-15, one for the
  same week without a Monday, and a general one.
\<close>

definition mondayFrom :: "string \<Rightarrow> string \<Rightarrow> DaySchedule" where
  "mondayFrom a b =
     \<lparr>dayOfWeek = ''Monday'', isOffDay = False, morningStart = Some a, morningEnd = Some b,
      eveningStart = None, eveningEnd = None, morningSlots = None, eveningSlots = None,
      slotduration = Some ''30'', day_date = None\<rparr>"



definition generalDoc :: DoctorSchedule where
  "generalDoc =
     \<lparr>s_id = ''e00000000000000000000002'', s_doctorId = ''aaaaaaaaaaaaaaaaaaaaaaaa'',
      weekStart = None, weekEnd = None,
      days = Some [mondayFrom ''09:00'' ''10:00''], dateRanges = None,
      allowOutsideRange = None\<rparr>"

section \<open>Properties of the slot generator\<close>

lemma slots_while_stop:
  "\<not> date_less cur en \<Longrightarrow> slots_while mk cur en du acc = Some acc"
  by (subst slots_while.simps) simp

lemma slots_while_ticks:
  "0 < d \<Longrightarrow> dateMin \<le> c \<Longrightarrow> e \<le> dateMax \<Longrightarrow>
   slots_while mk (Some c) (Some e) (Some d) acc =
     Some (acc @ map (\<lambda>t. mk (toTimeString5 (Some t))) (ticks c e d))"
proof (induction c e d arbitrary: acc rule: ticks.induct)
  case (1 c e d)
  show ?case
  proof (cases "c < e")
    case True
    have step: "slots_while mk (Some c) (Some e) (Some d) acc =
          slots_while mk (addMinutes (Some c) (Some d)) (Some e) (Some d)
            (acc @ [mk (toTimeString5 (Some c))])"
      using True by (subst slots_while.simps) simp
    have unfold: "ticks c e d = c # ticks (c + d) e d"
      using True "1.prems" by (subst ticks.simps) simp
    show ?thesis
    proof (cases "inDateRange (c + d)")
      case True
      have "slots_while mk (Some (c + d)) (Some e) (Some d) (acc @ [mk (toTimeString5 (Some c))]) =
            Some ((acc @ [mk (toTimeString5 (Some c))]) @
                  map (\<lambda>t. mk (toTimeString5 (Some t))) (ticks (c + d) e d))"
        using "1.IH" \<open>c < e\<close> "1.prems" by (simp add: inDateRange_def)
      then show ?thesis using step True by (simp add: unfold)
    next
      case False
      with "1.prems" have "e \<le> c + d" by (simp add: inDateRange_def)
      then have "ticks (c + d) e d = []" by (subst ticks.simps) simp
      then show ?thesis using step False by (simp add: unfold slots_while_stop)
    qed
  next
    case False
    then show ?thesis
      by (subst slots_while.simps, subst ticks.simps) simp
  qed
qed







lemma ticks_bounds: "t \<in> set (ticks c e d) \<Longrightarrow> c \<le> t \<and> t < e"
proof (induction c e d rule: ticks.induct)
  case (1 c e d)
  then show ?case
    by (subst (asm) (2) ticks.simps) (auto split: if_splits)
qed

lemma ticks_nth: "i < length (ticks c e d) \<Longrightarrow> ticks c e d ! i = c + int i * d"
proof (induction c e d arbitrary: i rule: ticks.induct)
  case (1 c e d)
  show ?case
  proof (cases "c < e \<and> 0 < d")
    case True
    then have eq: "ticks c e d = c # ticks (c + d) e d"
      by (subst ticks.simps) simp
    show ?thesis
    proof (cases i)
      case 0
      then show ?thesis by (simp add: eq)
    next
      case (Suc j)
      with "1.prems" eq have "j < length (ticks (c + d) e d)" by simp
      with "1.IH" True have "ticks (c + d) e d ! j = c + d + int j * d" by blast
      then show ?thesis by (simp add: eq Suc algebra_simps)
    qed
  next
    case False
    then have "ticks c e d = []" by (subst ticks.simps) auto
    with "1.prems" show ?thesis by simp
  qed
qed

lemma ticks_last: "0 < d \<Longrightarrow> c < e \<Longrightarrow> e \<le> last (ticks c e d) + d"
proof (induction c e d rule: ticks.induct)
  case (1 c e d)
  have eq: "ticks c e d = c # ticks (c + d) e d"
    using "1.prems" by (subst ticks.simps) simp
  show ?case
  proof (cases "c + d < e")
    case True
    then have "ticks (c + d) e d \<noteq> []"
      using "1.prems" by (subst ticks.simps) simp
    moreover have "e \<le> last (ticks (c + d) e d) + d"
      using "1.IH" "1.prems" True by simp
    ultimately show ?thesis by (simp add: eq)
  next
    case False
    then have "ticks (c + d) e d = []" by (subst ticks.simps) simp
    with False show ?thesis by (simp add: eq)
  qed
qed

lemma ticks_sorted: "sorted_wrt (<) (ticks c e d)"
proof (induction c e d rule: ticks.induct)
  case (1 c e d)
  show ?case
  proof (cases "c < e \<and> 0 < d")
    case True
    then have eq: "ticks c e d = c # ticks (c + d) e d"
      by (subst ticks.simps) simp
    have "\<forall>t \<in> set (ticks (c + d) e d). c < t"
      using ticks_bounds [of _ "c + d" e d] True by fastforce
    moreover have "sorted_wrt (<) (ticks (c + d) e d)"
      using "1.IH" True by blast
    ultimately show ?thesis by (simp add: eq)
  next
    case False
    then have "ticks c e d = []" by (subst ticks.simps) auto
    then show ?thesis by simp
  qed
qed

lemma char_of_digits:
  "char_of (48 :: nat) = CHR ''0''" "char_of (49 :: nat) = CHR ''1''"
  "char_of (50 :: nat) = CHR ''2''" "char_of (51 :: nat) = CHR ''3''"
  "char_of (52 :: nat) = CHR ''4''" "char_of (53 :: nat) = CHR ''5''"
  "char_of (54 :: nat) = CHR ''6''" "char_of (55 :: nat) = CHR ''7''"
  "char_of (56 :: nat) = CHR ''8''" "char_of (57 :: nat) = CHR ''9''"
  by code_simp+

lemma digit_char:
  "k < 10 \<Longrightarrow> is_digit (char_of (48 + k)) \<and> digit_val (char_of (48 + k)) = k"
  by (simp add: is_digit_def digit_val_def)

lemma two_digits_parse:
  "n < 100 \<Longrightarrow> two_digits n = [a, b] \<Longrightarrow>
     is_digit a \<and> is_digit b \<and> digit_val a * 10 + digit_val b = n"
  unfolding two_digits_def using digit_char [of "n div 10"] digit_char [of "n mod 10"]
  by auto

text \<open>Printing a time of day and reading it back gives the same minute.\<close>

lemma newDate2000_toTimeString5:
  assumes "0 \<le> t" "t < 1440"
  shows "newDate2000 (toTimeString5 (Some t)) = Some t"
proof -
  define m where "m = nat t"
  have m: "m < 1440" "t mod 1440 = int m" using assms by (auto simp: m_def)
  have h: "m div 60 < 100" "m mod 60 < 100" "m div 60 \<le> 23" "m mod 60 \<le> 59" using m by auto
  obtain a1 b1 where hh: "two_digits (m div 60) = [a1, b1]" by (simp add: two_digits_def)
  obtain a2 b2 where mm: "two_digits (m mod 60) = [a2, b2]" by (simp add: two_digits_def)
  note p1 = two_digits_parse [OF h(1) hh]
  note p2 = two_digits_parse [OF h(2) mm]
  have "toTimeString5 (Some t) = [a1, b1, CHR '':'', a2, b2]"
    using m hh mm by simp
  moreover have "newDate2000 [a1, b1, CHR '':'', a2, b2] = Some (int ((m div 60) * 60 + m mod 60))"
    using p1 p2 h by (simp del: of_nat_add of_nat_mult)
  moreover have "(m div 60) * 60 + m mod 60 = m" by simp
  ultimately show ?thesis using assms by (simp add: m_def del: of_nat_add of_nat_mult)
qed

lemma newDate2000_range: "newDate2000 x = Some m \<Longrightarrow> 0 \<le> m \<and> m \<le> 1440"
  by (induction x rule: newDate2000.induct) (auto simp: Let_def split: if_splits)

lemma newDate2000_nonempty: "newDate2000 x = Some m \<Longrightarrow> x \<noteq> []"
  by auto



lemma newDate2000_inRange: "newDate2000 x = Some m \<Longrightarrow> inDateRange m"
  using newDate2000_range [of x m] by (simp add: inDateRange_def dateMin_def dateMax_def)

lemma ticks_first: "c < e \<Longrightarrow> 0 < d \<Longrightarrow> ticks c e d \<noteq> [] \<and> hd (ticks c e d) = c"
  by (subst (1 2) ticks.simps) simp

lemma ticks_step:
  assumes "Suc i < length (ticks c e d)"
  shows "ticks c e d ! Suc i = ticks c e d ! i + d"
proof -
  have "ticks c e d ! Suc i = c + int (Suc i) * d" using assms by (rule ticks_nth)
  moreover have "ticks c e d ! i = c + int i * d" using assms by (intro ticks_nth) simp
  ultimately show ?thesis by (simp add: algebra_simps)
qed

text \<open>
  C3.  For bounds that parse, \<open>start < end\<close> and a positive duration, both generators
  return, and the slots are the times \<open>ts\<close>: the first is \<open>start\<close>, they increase strictly,
  each lies in the half-open window from \<open>start\<close> to \<open>end\<close> and is printed as the clock time
  that reads back as itself, consecutive ones differ by the duration, and the time after
  the last one, the first that is not generated, is at or after \<open>end\<close>.
\<close>

theorem generateTimeSlots_window:
  assumes "newDate2000 start = Some s" and "newDate2000 end = Some e"
    and "s < e" and "0 < d"
  shows "\<exists>ts. generateTimeSlots start end (Some d) =
                 Some (map (\<lambda>t. mkTimeSlot (toTimeString5 (Some t))) ts) \<and>
              generateTimeSlots_db start end (Some d) =
                 Some (map (\<lambda>t. toTimeString5 (Some t)) ts) \<and>
              ts \<noteq> [] \<and> hd ts = s \<and> sorted_wrt (<) ts \<and>
              (\<forall>t \<in> set ts. s \<le> t \<and> t < e \<and> newDate2000 (toTimeString5 (Some t)) = Some t) \<and>
              (\<forall>i. Suc i < length ts \<longrightarrow> ts ! Suc i = ts ! i + d) \<and>
              e \<le> last ts + d"
proof (intro exI [of _ "ticks s e d"] conjI)
  show "generateTimeSlots start end (Some d) =
          Some (map (\<lambda>t. mkTimeSlot (toTimeString5 (Some t))) (ticks s e d))"
    using assms newDate2000_nonempty [OF assms(1)] newDate2000_nonempty [OF assms(2)]
      newDate2000_inRange [OF assms(1)] newDate2000_inRange [OF assms(2)]
    by (simp add: generateTimeSlots_def slots_while_ticks inDateRange_def)
  show "generateTimeSlots_db start end (Some d) =
          Some (map (\<lambda>t. toTimeString5 (Some t)) (ticks s e d))"
    using assms newDate2000_inRange [OF assms(1)] newDate2000_inRange [OF assms(2)]
    by (simp add: generateTimeSlots_db_def slots_while_ticks inDateRange_def)
  show "ticks s e d \<noteq> []" using ticks_first assms by blast
  show "hd (ticks s e d) = s" using ticks_first assms by blast
  show "sorted_wrt (<) (ticks s e d)" by (rule ticks_sorted)
  show "\<forall>t \<in> set (ticks s e d).
          s \<le> t \<and> t < e \<and> newDate2000 (toTimeString5 (Some t)) = Some t"
  proof
    fix t assume "t \<in> set (ticks s e d)"
    then have b: "s \<le> t \<and> t < e" by (rule ticks_bounds)
    moreover have "0 \<le> s" "e \<le> 1440"
      using newDate2000_range [OF assms(1)] newDate2000_range [OF assms(2)] by auto
    ultimately have "0 \<le> t" "t < 1440" by auto
    then have "newDate2000 (toTimeString5 (Some t)) = Some t"
      by (rule newDate2000_toTimeString5)
    with b show "s \<le> t \<and> t < e \<and> newDate2000 (toTimeString5 (Some t)) = Some t" by simp
  qed
  show "\<forall>i. Suc i < length (ticks s e d) \<longrightarrow> ticks s e d ! Suc i = ticks s e d ! i + d"
    using ticks_step by blast
  show "e \<le> last (ticks s e d) + d" using assms by (intro ticks_last)
qed

lemma newDate2000_0900: "newDate2000 ''09:00'' = Some 540"
  by (simp add: is_digit_def digit_val_def)

lemma newDate2000_1000: "newDate2000 ''10:00'' = Some 600"
  by (simp add: is_digit_def digit_val_def)

theorem generateTimeSlots_window_witness:
  "newDate2000 ''09:00'' = Some 540 \<and> newDate2000 ''10:00'' = Some 600 \<and>
   (540 :: int) < 600 \<and> (0 :: int) < 30 \<and>
   (\<exists>ts. generateTimeSlots ''09:00'' ''10:00'' (Some 30) =
            Some (map (\<lambda>t. mkTimeSlot (toTimeString5 (Some t))) ts) \<and>
         generateTimeSlots_db ''09:00'' ''10:00'' (Some 30) =
            Some (map (\<lambda>t. toTimeString5 (Some t)) ts) \<and>
         ts \<noteq> [] \<and> hd ts = 540 \<and> sorted_wrt (<) ts \<and>
         (\<forall>t \<in> set ts. 540 \<le> t \<and> t < 600 \<and> newDate2000 (toTimeString5 (Some t)) = Some t) \<and>
         (\<forall>i. Suc i < length ts \<longrightarrow> ts ! Suc i = ts ! i + 30) \<and>
         600 \<le> last ts + 30)"
  using generateTimeSlots_window [OF newDate2000_0900 newDate2000_1000, of 30]
    newDate2000_0900 newDate2000_1000
  by simp








section \<open>Off days\<close>

lemma processScheduleSlots_offday:
  "isOffDay d \<Longrightarrow> processScheduleSlots (Some (OneDay d)) = Some ([], [])"
  by simp

text \<open>The slot booking component shows nothing for an off day that the slots route returns.\<close>

lemma fetchOptimizedSchedule_offday:
  assumes "slots_optimized_GET docs (Some doctor) (Some day) (Some (weekdayLong day)) = Json body"
    and "schedule body = OneDay d" and "isOffDay d"
  shows "fetchOptimizedSchedule docs doctor day old = Some ([], [])"
  using assms by (simp add: fetchOptimizedSchedule_def)

text \<open>
  The booking dialog tests \<open>isOffDay\<close> on the day of the weekly schedule only.
\<close>

lemma dialog_weekly_offday:
  assumes "currentDateRange body = None"
    and "findDay (weekdayLong day) (r_days body) = Some d" and "isOffDay d"
  shows "dialog_generateTimeSlots (Some day) old body = Some ([], [])"
  using assms by (simp add: dialog_generateTimeSlots_def)

text \<open>
  C7 fails in the booking dialog.  The doctor has a general schedule with a date range
  for September 2025 in which Monday is an off day that still carries a stored morning slot
  array.  For Monday 2025-09-15 the schedule route answers with that range, and the dialog
  shows the stored slots of the off day.
\<close>

theorem dialog_offday_in_date_range_shows_slots:
  "isOffDay offMonday \<and>
   fetchAvailableSlots [rangeSchedule] ''aaaaaaaaaaaaaaaaaaaaaaaa'' 1757894400000 ([], []) =
     Some ([mkTimeSlot ''09:00'', mkTimeSlot ''09:30''], [])"
  by (simp add: offMonday_def rangeSchedule_def fetchAvailableSlots_def schedule_GET_def
      is_hex24_def is_hex_def hex_lower_def findOne_def coversDate_def isGeneral_def
      generalAnswer_def spreadBody_def dialog_generateTimeSlots_def weekdayLong_def
      day_number_def findDay_def generateSlotsForDay_def sessionSlots_def)

section \<open>Properties of booking and cancellation\<close>

lemma findOne_None: "findOne P xs = None \<longleftrightarrow> \<not> list_ex P xs"
  by (auto simp: findOne_def find_None_iff list_ex_iff)

lemma findOne_Some: "findOne P xs = Some x \<Longrightarrow> x \<in> set xs \<and> P x"
  by (auto simp: findOne_def find_Some_iff)

lemma findOne_cases:
  obtains (none) "findOne P xs = None" "\<not> list_ex P xs"
  | (some) x where "findOne P xs = Some x" "x \<in> set xs" "P x" "list_ex P xs"
proof (cases "findOne P xs")
  case None
  then show ?thesis using none findOne_None by blast
next
  case (Some x)
  then have "x \<in> set xs \<and> P x" by (rule findOne_Some)
  then show ?thesis using some Some by (auto simp: list_ex_iff)
qed

lemma ObjectId_Some: "ObjectId s = Some i \<longleftrightarrow> is_hex24 s \<and> i = map hex_lower s"
  by (auto simp: ObjectId_def)

lemma is_hex24_truthy: "is_hex24 s \<Longrightarrow> truthy (Some s)"
  by (auto simp: is_hex24_def)

lemma appointments_POST_conflict_iff:
  assumes "truthy (b_doctorId body)" "truthy (b_patientId body)"
    "truthy (b_date body)" "truthy (b_time body)"
  shows "fst (appointments_POST env db body) = Error 400 ''Time slot already booked'' \<longleftrightarrow>
         slotHeld db (the (b_doctorId body)) (the (b_date body)) (the (b_time body))"
proof (cases "ObjectId (the (b_doctorId body))")
  case None
  then show ?thesis using assms by (simp add: appointments_POST_def slotHeld_def)
next
  case (Some did)
  show ?thesis
  proof (cases rule: findOne_cases [of "slotTaken did (the (b_date body)) (the (b_time body))" "appointments db"])
    case none
    then show ?thesis using assms Some
      by (simp add: appointments_POST_def slotHeld_def Let_def split: option.splits)
  next
    case (some x)
    then show ?thesis using assms Some
      by (simp add: appointments_POST_def slotHeld_def)
  qed
qed

lemma appointments_POST_error_keeps_db:
  "fst (appointments_POST env db body) = Error c m \<Longrightarrow> snd (appointments_POST env db body) = db"
  by (auto simp: appointments_POST_def Let_def split: if_splits option.splits)

lemma appointments_POST_free:
  assumes "truthy (b_doctorId body)" "truthy (b_patientId body)"
    "truthy (b_date body)" "truthy (b_time body)"
    and "ObjectId (the (b_doctorId body)) = Some did"
    and "ObjectId (the (b_patientId body)) = Some pid"
    and "\<not> slotHeld db (the (b_doctorId body)) (the (b_date body)) (the (b_time body))"
    and "insertable db (newId env) (bookingKey env body)"
  shows "\<exists>a. appointments_POST env db body = (Json a, db\<lparr>appointments := appointments db @ [a]\<rparr>) \<and>
             oid a = newId env \<and> appointmentKey a = bookingKey env body \<and>
             doctorId a = did \<and> patientId a = pid \<and>
             date a = the (b_date body) \<and> time a = the (b_time body) \<and>
             sessionStartTime a = the (b_time body) \<and> status a = ''pending''"
proof -
  have "findOne (slotTaken did (the (b_date body)) (the (b_time body))) (appointments db) = None"
    using assms(5,7) by (simp add: findOne_None slotHeld_def)
  then show ?thesis using assms
    by (simp add: appointments_POST_def Let_def insertOne_def insertable_def bookingKey_def
        newAppointment_def)
qed

lemma updateOne_cancel_split:
  assumes "list_ex (\<lambda>x. oid x = i) coll"
  shows "\<exists>pre a post. coll = pre @ a # post \<and> oid a = i \<and> (\<forall>x \<in> set pre. oid x \<noteq> i) \<and>
           updateOne_cancel i t coll =
             (pre @ a\<lparr>status := ''cancelled'', updatedAt := t\<rparr> # post,
              if a\<lparr>status := ''cancelled'', updatedAt := t\<rparr> = a then 0 else 1)"
  using assms
proof (induction coll)
  case Nil
  then show ?case by simp
next
  case (Cons x xs)
  show ?case
  proof (cases "oid x = i")
    case True
    then show ?thesis
      by (intro exI [of _ "[]"] exI [of _ x] exI [of _ xs]) simp
  next
    case False
    with Cons.prems have "list_ex (\<lambda>x. oid x = i) xs" by simp
    from Cons.IH [OF this] obtain pre a post where
      h: "xs = pre @ a # post" "oid a = i" "\<forall>x \<in> set pre. oid x \<noteq> i"
        "updateOne_cancel i t xs =
           (pre @ a\<lparr>status := ''cancelled'', updatedAt := t\<rparr> # post,
            if a\<lparr>status := ''cancelled'', updatedAt := t\<rparr> = a then 0 else 1)"
      by blast
    show ?thesis
      using h False
      by (intro exI [of _ "x # pre"] exI [of _ a] exI [of _ post]) simp
  qed
qed

lemma distinct_oid_unique:
  assumes "distinct (map oid coll)" "a \<in> set coll" "b \<in> set coll" "oid a = oid b"
  shows "a = b"
  using assms by (meson distinct_map inj_onD)

lemma appointments_PUT_success:
  assumes "distinct (map oid (appointments db))"
    and "appointments_PUT env db cb = (Json (), db')"
  shows "\<exists>pre a post. appointments db = pre @ a # post \<and>
           c_status cb = Some ''cancelled'' \<and>
           ObjectId (the (c_appointmentId cb)) = Some (oid a) \<and>
           ObjectId (the (c_patientId cb)) = Some (patientId a) \<and>
           status a \<noteq> ''cancelled'' \<and>
           db' = db\<lparr>appointments := pre @ a\<lparr>status := ''cancelled'', updatedAt := now env\<rparr> # post\<rparr>"
proof -
  define aid where "aid = map hex_lower (the (c_appointmentId cb))"
  define pid where "pid = map hex_lower (the (c_patientId cb))"
  from assms(2) have tr: "truthy (c_status cb)" and st: "the (c_status cb) = ''cancelled''"
    and hx: "is_hex24 (the (c_appointmentId cb))" "is_hex24 (the (c_patientId cb))"
    by (auto simp: appointments_PUT_def split: if_splits)
  from tr st have st': "c_status cb = Some ''cancelled''" by (cases "c_status cb") auto
  from assms(2) obtain ap where
    f: "findOne (\<lambda>a. oid a = aid \<and> patientId a = pid) (appointments db) = Some ap"
    by (auto simp: appointments_PUT_def Let_def aid_def pid_def split: if_splits option.splits)
  then have ap: "ap \<in> set (appointments db)" "oid ap = aid" "patientId ap = pid"
    using findOne_Some [OF f] by auto
  from assms(2) f have nc: "status ap \<noteq> ''cancelled''"
    by (auto simp: appointments_PUT_def Let_def aid_def pid_def split: if_splits option.splits)
  have "list_ex (\<lambda>x. oid x = aid) (appointments db)" using ap by (auto simp: list_ex_iff)
  from updateOne_cancel_split [OF this, of "now env"] obtain pre a post where
    sp: "appointments db = pre @ a # post" "oid a = aid"
      "updateOne_cancel aid (now env) (appointments db) =
         (pre @ a\<lparr>status := ''cancelled'', updatedAt := now env\<rparr> # post,
          if a\<lparr>status := ''cancelled'', updatedAt := now env\<rparr> = a then 0 else 1)"
    by blast
  have "a \<in> set (appointments db)" using sp(1) by simp
  then have "a = ap" using distinct_oid_unique [OF assms(1) _ ap(1)] sp(2) ap(2) by simp
  have "db' = db\<lparr>appointments := pre @ a\<lparr>status := ''cancelled'', updatedAt := now env\<rparr> # post\<rparr>"
    using assms(2) f nc sp(3) tr st hx
    by (auto simp: appointments_PUT_def Let_def aid_def pid_def split: if_splits option.splits)
  then show ?thesis
    using sp(1) st' hx ap nc \<open>a = ap\<close>
    by (intro exI [of _ pre] exI [of _ a] exI [of _ post])
       (simp add: ObjectId_Some aid_def pid_def)
qed

lemma appointments_PUT_ok:
  assumes "distinct (map oid (appointments db))"
    and "appointments db = pre @ a # post"
    and "ObjectId aid = Some (oid a)" and "ObjectId pid = Some (patientId a)"
    and "status a \<noteq> ''cancelled''"
  shows "appointments_PUT env db
           \<lparr>c_appointmentId = Some aid, c_status = Some ''cancelled'', c_patientId = Some pid\<rparr> =
         (Json (), db\<lparr>appointments := pre @ a\<lparr>status := ''cancelled'', updatedAt := now env\<rparr> # post\<rparr>)"
proof -
  have hx: "is_hex24 aid" "map hex_lower aid = oid a" "is_hex24 pid" "map hex_lower pid = patientId a"
    using assms(3,4) by (auto simp: ObjectId_Some)
  have ain: "a \<in> set (appointments db)" using assms(2) by simp
  have "list_ex (\<lambda>x. oid x = oid a \<and> patientId x = patientId a) (appointments db)"
    using ain by (auto simp: list_ex_iff)
  then obtain ap where
    f: "findOne (\<lambda>x. oid x = oid a \<and> patientId x = patientId a) (appointments db) = Some ap"
    using findOne_None [of "\<lambda>x. oid x = oid a \<and> patientId x = patientId a" "appointments db"]
    by (cases "findOne (\<lambda>x. oid x = oid a \<and> patientId x = patientId a) (appointments db)") auto
  have "ap = a"
    using findOne_Some [OF f] distinct_oid_unique [OF assms(1) _ ain] by auto
  have "oid a \<notin> oid ` set pre"
    using assms(1,2) by auto
  then have pre: "\<forall>x \<in> set pre. oid x \<noteq> oid a"
    by (metis imageI)
  have upd: "updateOne_cancel (oid a) t (pre @ a # post) =
      (pre @ a\<lparr>status := ''cancelled'', updatedAt := t\<rparr> # post,
       if a\<lparr>status := ''cancelled'', updatedAt := t\<rparr> = a then 0 else 1)" for t
    using pre by (induction pre) auto
  have ne: "a\<lparr>status := ''cancelled'', updatedAt := t\<rparr> \<noteq> a" for t
    using assms(5) by (metis Appointment.select_convs(8) Appointment.surjective Appointment.update_convs(8) Appointment.update_convs(13))
  show ?thesis
    using hx is_hex24_truthy [OF hx(1)] is_hex24_truthy [OF hx(3)] f \<open>ap = a\<close> assms(2,5) upd ne
    by (simp add: appointments_PUT_def Let_def)
qed

text \<open>The sample requests, evaluated.\<close>

lemma key_23456: "generateAppointmentKey 23456 = ''123456''"
  by (simp add: generateAppointmentKey_def char_of_digits)

lemma key_554321: "generateAppointmentKey 554321 = ''654321''"
  by (simp add: generateAppointmentKey_def char_of_digits)

lemma oid_doctor: "ObjectId ''aaaaaaaaaaaaaaaaaaaaaaaa'' = Some ''aaaaaaaaaaaaaaaaaaaaaaaa''"
  by (simp add: ObjectId_def is_hex24_def is_hex_def hex_lower_def)
lemma oid_p1: "ObjectId ''111111111111111111111111'' = Some ''111111111111111111111111''"
  by (simp add: ObjectId_def is_hex24_def is_hex_def hex_lower_def)
lemma oid_p2: "ObjectId ''222222222222222222222222'' = Some ''222222222222222222222222''"
  by (simp add: ObjectId_def is_hex24_def is_hex_def hex_lower_def)
lemma oid_a1: "ObjectId ''c00000000000000000000001'' = Some ''c00000000000000000000001''"
  by (simp add: ObjectId_def is_hex24_def is_hex_def hex_lower_def)

lemmas sample_defs = emptyDb_def envA_def envB_def envC_def bodyA_def bodyB_def apptA_def apptB_def
  dbA_def cancelA_def
lemmas eval_defs = oid_doctor oid_p1 oid_p2 oid_a1 findOne_def slotTaken_def
  insertOne_def newAppointment_def or_default_def key_23456 key_554321 Let_def

lemma first_booking: "appointments_POST envA emptyDb bodyA = (Json apptA, dbA)"
  by (simp add: appointments_POST_def sample_defs eval_defs)

lemma second_booking_conflict: "appointments_POST envB dbA bodyB = (Error 400 ''Time slot already booked'', dbA)"
  by (simp add: appointments_POST_def sample_defs eval_defs)


lemma first_cancel: "appointments_PUT envC dbA cancelA = (Json (), emptyDb\<lparr>appointments := [apptA\<lparr>status := ''cancelled'', updatedAt := 1757000030000\<rparr>]\<rparr>)"
  by (simp add: appointments_PUT_def sample_defs eval_defs is_hex24_def is_hex_def hex_lower_def)

lemma appointment_requests_POST_conflict_iff:
  assumes "truthy (b_doctorId body)" "truthy (b_patientId body)"
    "truthy (b_date body)" "truthy (b_time body)"
  shows "fst (appointment_requests_POST env db body) = Error 400 ''Time slot already booked'' \<longleftrightarrow>
         slotHeld db (the (b_doctorId body)) (the (b_date body)) (the (b_time body))"
proof (cases "ObjectId (the (b_doctorId body))")
  case None
  then show ?thesis using assms by (simp add: appointment_requests_POST_def slotHeld_def)
next
  case (Some did)
  show ?thesis
  proof (cases rule: findOne_cases [of "slotTaken did (the (b_date body)) (the (b_time body))" "appointments db"])
    case none
    then show ?thesis using assms Some
      by (simp add: appointment_requests_POST_def slotHeld_def Let_def split: option.splits)
  next
    case (some x)
    then show ?thesis using assms Some
      by (simp add: appointment_requests_POST_def slotHeld_def)
  qed
qed

text \<open>The second refusal of the requests route: the slot is free and a request is pending.\<close>

lemma appointment_requests_POST_request_iff:
  assumes "truthy (b_doctorId body)" "truthy (b_patientId body)"
    "truthy (b_date body)" "truthy (b_time body)"
  shows "fst (appointment_requests_POST env db body) =
           Error 400 ''Appointment request already exists for this slot'' \<longleftrightarrow>
         \<not> slotHeld db (the (b_doctorId body)) (the (b_date body)) (the (b_time body)) \<and>
         requestHeld db (the (b_doctorId body)) (the (b_date body)) (the (b_time body))"
proof (cases "ObjectId (the (b_doctorId body))")
  case None
  then show ?thesis using assms
    by (simp add: appointment_requests_POST_def slotHeld_def requestHeld_def)
next
  case (Some did)
  show ?thesis
  proof (cases rule: findOne_cases [of "slotTaken did (the (b_date body)) (the (b_time body))" "appointments db"])
    case (some x)
    then show ?thesis using assms Some
      by (simp add: appointment_requests_POST_def slotHeld_def)
  next
    case none
    note free = none
    show ?thesis
    proof (cases rule: findOne_cases [of "requestPending did (the (b_date body)) (the (b_time body))" "requests db"])
      case none
      then show ?thesis using assms Some free
        by (simp add: appointment_requests_POST_def slotHeld_def requestHeld_def Let_def
            split: option.splits)
    next
      case (some x)
      then show ?thesis using assms Some free
        by (simp add: appointment_requests_POST_def slotHeld_def requestHeld_def)
    qed
  qed
qed

lemma appointment_requests_POST_error_keeps_db:
  "fst (appointment_requests_POST env db body) = Error c m \<Longrightarrow>
   snd (appointment_requests_POST env db body) = db"
  by (auto simp: appointment_requests_POST_def Let_def split: if_splits option.splits)

lemma appointment_requests_POST_free:
  assumes "truthy (b_doctorId body)" "truthy (b_patientId body)"
    "truthy (b_date body)" "truthy (b_time body)"
    and "ObjectId (the (b_doctorId body)) = Some did"
    and "ObjectId (the (b_patientId body)) = Some pid"
    and "\<not> slotHeld db (the (b_doctorId body)) (the (b_date body)) (the (b_time body))"
    and "\<not> requestHeld db (the (b_doctorId body)) (the (b_date body)) (the (b_time body))"
    and "if b_autoConfirm body
         then insertable db (newId env) (generateAppointmentKey (random900000 env))
         else newId env \<notin> set (map oid (requests db))"
  shows "\<exists>a. appointment_requests_POST env db body =
               (Json a, if b_autoConfirm body
                        then db\<lparr>appointments := appointments db @ [a]\<rparr>
                        else db\<lparr>requests := requests db @ [a]\<rparr>) \<and>
             oid a = newId env \<and> appointmentKey a = generateAppointmentKey (random900000 env) \<and>
             status a = ''pending'' \<and> doctorId a = did \<and> patientId a = pid \<and>
             date a = the (b_date body) \<and> time a = the (b_time body)"
proof -
  have f: "findOne (slotTaken did (the (b_date body)) (the (b_time body))) (appointments db) = None"
    using assms(5,7) by (simp add: findOne_None slotHeld_def)
  have r: "findOne (requestPending did (the (b_date body)) (the (b_time body))) (requests db) = None"
    using assms(5,8) by (simp add: findOne_None requestHeld_def)
  show ?thesis
  proof (cases "b_autoConfirm body")
    case True
    then show ?thesis using assms f r
      by (simp add: appointment_requests_POST_def Let_def insertOne_def insertable_def
          newAppointment_def)
  next
    case False
    then show ?thesis using assms f r
      by (simp add: appointment_requests_POST_def Let_def insertOne_def newAppointment_def)
  qed
qed

text \<open>Cancelling the only holder of a slot and booking the slot again.\<close>

lemma cancel_frees_slot:
  assumes ids: "ObjectId (the (b_doctorId body)) = Some did"
    and uniq: "distinct (map oid (appointments db))"
    and split: "appointments db = pre @ a # post"
    and only: "\<not> list_ex (slotTaken did (the (b_date body)) (the (b_time body))) (pre @ post)"
    and owner: "ObjectId aid = Some (oid a)" "ObjectId pid = Some (patientId a)"
    and live: "status a \<noteq> ''cancelled''"
  shows "\<exists>db1. appointments_PUT envc db
            \<lparr>c_appointmentId = Some aid, c_status = Some ''cancelled'', c_patientId = Some pid\<rparr> =
              (Json (), db1) \<and>
           \<not> slotHeld db1 (the (b_doctorId body)) (the (b_date body)) (the (b_time body)) \<and>
           map oid (appointments db1) = map oid (appointments db) \<and>
           map appointmentKey (appointments db1) = map appointmentKey (appointments db) \<and>
           appointmentKey_idx db1 = appointmentKey_idx db \<and> requests db1 = requests db"
proof -
  define a' where "a' = a\<lparr>status := ''cancelled'', updatedAt := now envc\<rparr>"
  define db1 where "db1 = db\<lparr>appointments := pre @ a' # post\<rparr>"
  have put: "appointments_PUT envc db
      \<lparr>c_appointmentId = Some aid, c_status = Some ''cancelled'', c_patientId = Some pid\<rparr> =
      (Json (), db1)"
    unfolding db1_def a'_def by (rule appointments_PUT_ok [OF uniq split owner live])
  have nt: "\<not> slotTaken did (the (b_date body)) (the (b_time body)) a'"
    by (simp add: slotTaken_def a'_def)
  have free: "\<not> slotHeld db1 (the (b_doctorId body)) (the (b_date body)) (the (b_time body))"
    using only nt ids by (simp add: slotHeld_def db1_def)
  have "map oid (appointments db1) = map oid (appointments db)"
    "map appointmentKey (appointments db1) = map appointmentKey (appointments db)"
    "appointmentKey_idx db1 = appointmentKey_idx db" "requests db1 = requests db"
    by (simp_all add: db1_def split a'_def)
  with put free show ?thesis by blast
qed

lemma cancel_then_book:
  assumes present: "truthy (b_doctorId body)" "truthy (b_patientId body)"
      "truthy (b_date body)" "truthy (b_time body)"
    and ids: "ObjectId (the (b_doctorId body)) = Some did" "ObjectId (the (b_patientId body)) = Some p"
    and uniq: "distinct (map oid (appointments db))"
    and split: "appointments db = pre @ a # post"
    and only: "\<not> list_ex (slotTaken did (the (b_date body)) (the (b_time body))) (pre @ post)"
    and owner: "ObjectId aid = Some (oid a)" "ObjectId pid = Some (patientId a)"
    and live: "status a \<noteq> ''cancelled''"
    and ins: "insertable db (newId env) (bookingKey env body)"
  shows "\<exists>db1 ap. appointments_PUT envc db
            \<lparr>c_appointmentId = Some aid, c_status = Some ''cancelled'', c_patientId = Some pid\<rparr> =
              (Json (), db1) \<and>
           appointments_POST env db1 body = (Json ap, db1\<lparr>appointments := appointments db1 @ [ap]\<rparr>) \<and>
           status ap = ''pending'' \<and> doctorId ap = did \<and>
           date ap = the (b_date body) \<and> time ap = the (b_time body)"
proof -
  from cancel_frees_slot [OF ids(1) uniq split only owner live, of envc] obtain db1 where
    put: "appointments_PUT envc db
      \<lparr>c_appointmentId = Some aid, c_status = Some ''cancelled'', c_patientId = Some pid\<rparr> =
      (Json (), db1)"
    and free: "\<not> slotHeld db1 (the (b_doctorId body)) (the (b_date body)) (the (b_time body))"
    and same: "map oid (appointments db1) = map oid (appointments db)"
      "map appointmentKey (appointments db1) = map appointmentKey (appointments db)"
      "appointmentKey_idx db1 = appointmentKey_idx db"
    by blast
  have ins1: "insertable db1 (newId env) (bookingKey env body)"
    using ins same by (simp add: insertable_def)
  from appointments_POST_free [OF present ids free ins1] put show ?thesis by blast
qed

lemma cancel_then_request:
  assumes present: "truthy (b_doctorId body)" "truthy (b_patientId body)"
      "truthy (b_date body)" "truthy (b_time body)"
    and ids: "ObjectId (the (b_doctorId body)) = Some did" "ObjectId (the (b_patientId body)) = Some p"
    and uniq: "distinct (map oid (appointments db))"
    and split: "appointments db = pre @ a # post"
    and only: "\<not> list_ex (slotTaken did (the (b_date body)) (the (b_time body))) (pre @ post)"
    and owner: "ObjectId aid = Some (oid a)" "ObjectId pid = Some (patientId a)"
    and live: "status a \<noteq> ''cancelled''"
    and noreq: "\<not> requestHeld db (the (b_doctorId body)) (the (b_date body)) (the (b_time body))"
    and ins: "if b_autoConfirm body
         then insertable db (newId env) (generateAppointmentKey (random900000 env))
         else newId env \<notin> set (map oid (requests db))"
  shows "\<exists>db1 ap. appointments_PUT envc db
            \<lparr>c_appointmentId = Some aid, c_status = Some ''cancelled'', c_patientId = Some pid\<rparr> =
              (Json (), db1) \<and>
           appointment_requests_POST env db1 body =
             (Json ap, if b_autoConfirm body
                       then db1\<lparr>appointments := appointments db1 @ [ap]\<rparr>
                       else db1\<lparr>requests := requests db1 @ [ap]\<rparr>) \<and>
           status ap = ''pending'' \<and> doctorId ap = did \<and>
           date ap = the (b_date body) \<and> time ap = the (b_time body)"
proof -
  from cancel_frees_slot [OF ids(1) uniq split only owner live, of envc] obtain db1 where
    put: "appointments_PUT envc db
      \<lparr>c_appointmentId = Some aid, c_status = Some ''cancelled'', c_patientId = Some pid\<rparr> =
      (Json (), db1)"
    and free: "\<not> slotHeld db1 (the (b_doctorId body)) (the (b_date body)) (the (b_time body))"
    and same: "map oid (appointments db1) = map oid (appointments db)"
      "map appointmentKey (appointments db1) = map appointmentKey (appointments db)"
      "appointmentKey_idx db1 = appointmentKey_idx db" "requests db1 = requests db"
    by blast
  have noreq1: "\<not> requestHeld db1 (the (b_doctorId body)) (the (b_date body)) (the (b_time body))"
    using noreq unfolding requestHeld_def same(4) .
  have ins1: "if b_autoConfirm body
         then insertable db1 (newId env) (generateAppointmentKey (random900000 env))
         else newId env \<notin> set (map oid (requests db1))"
    using ins same by (auto simp: insertable_def split: if_splits)
  from appointment_requests_POST_free [OF present ids free noreq1 ins1] put
  show ?thesis by blast
qed

text \<open>
  C1, as the code has it.  For a request with the four fields present:
  \<^item> \<open>POST /api/appointments\<close> answers ``Time slot already booked'' exactly when the
    collection \<open>appointments\<close> holds an appointment for the same doctor, date and time whose
    status is pending or confirmed;
  \<^item> \<open>POST /api/appointment-requests\<close> gives that answer in exactly the same case, and
    when the slot is free it has a second refusal, ``Appointment request already exists for
    this slot'', exactly when the collection \<open>_appointment\<close> holds a pending request for
    the same doctor, date and time;
  \<^item> a handler that answers with an error has written nothing;
  \<^item> appointments that are cancelled, rejected or completed never cause the first answer;
  \<^item> with well-formed ids and a slot that is free, \<open>POST /api/appointments\<close> adds one
    pending appointment for the triple (the insert going through: a new \<open>_id\<close>, no key
    collision), and so does \<open>POST /api/appointment-requests\<close> when no request is pending
    for the triple, to \<open>appointments\<close> under \<open>autoConfirm\<close> and to \<open>_appointment\<close>
    otherwise;
  \<^item> when the only holder of the slot is cancelled by its owner, a booking of the same slot
    succeeds and is pending: through \<open>POST /api/appointments\<close> always, and through
    \<open>POST /api/appointment-requests\<close> when no request is pending for the triple.
\<close>

theorem booking_refused_iff_slot_or_request_held:
  assumes "truthy (b_doctorId body)" and "truthy (b_patientId body)"
    and "truthy (b_date body)" and "truthy (b_time body)"
  shows "(fst (appointments_POST env db body) = Error 400 ''Time slot already booked'') =
           slotHeld db (the (b_doctorId body)) (the (b_date body)) (the (b_time body)) \<and>
         (\<forall>c m. fst (appointments_POST env db body) = Error c m \<longrightarrow>
            snd (appointments_POST env db body) = db) \<and>
         (fst (appointment_requests_POST env db body) = Error 400 ''Time slot already booked'') =
           slotHeld db (the (b_doctorId body)) (the (b_date body)) (the (b_time body)) \<and>
         (fst (appointment_requests_POST env db body) =
            Error 400 ''Appointment request already exists for this slot'') =
           (\<not> slotHeld db (the (b_doctorId body)) (the (b_date body)) (the (b_time body)) \<and>
            requestHeld db (the (b_doctorId body)) (the (b_date body)) (the (b_time body))) \<and>
         (\<forall>c m. fst (appointment_requests_POST env db body) = Error c m \<longrightarrow>
            snd (appointment_requests_POST env db body) = db) \<and>
         ((\<forall>a \<in> set (appointments db).
              status a = ''cancelled'' \<or> status a = ''rejected'' \<or> status a = ''completed'') \<longrightarrow>
            fst (appointments_POST env db body) \<noteq> Error 400 ''Time slot already booked'' \<and>
            fst (appointment_requests_POST env db body) \<noteq> Error 400 ''Time slot already booked'') \<and>
         (\<forall>did p.
            ObjectId (the (b_doctorId body)) = Some did \<and>
            ObjectId (the (b_patientId body)) = Some p \<and>
            \<not> slotHeld db (the (b_doctorId body)) (the (b_date body)) (the (b_time body)) \<and>
            insertable db (newId env) (bookingKey env body) \<longrightarrow>
            (\<exists>ap.
               appointments_POST env db body =
                 (Json ap, db\<lparr>appointments := appointments db @ [ap]\<rparr>) \<and>
               oid ap = newId env \<and> appointmentKey ap = bookingKey env body \<and>
               status ap = ''pending'' \<and> doctorId ap = did \<and> patientId ap = p \<and>
               date ap = the (b_date body) \<and> time ap = the (b_time body))) \<and>
         (\<forall>did p.
            ObjectId (the (b_doctorId body)) = Some did \<and>
            ObjectId (the (b_patientId body)) = Some p \<and>
            \<not> slotHeld db (the (b_doctorId body)) (the (b_date body)) (the (b_time body)) \<and>
            \<not> requestHeld db (the (b_doctorId body)) (the (b_date body)) (the (b_time body)) \<and>
            (if b_autoConfirm body
             then insertable db (newId env) (generateAppointmentKey (random900000 env))
             else newId env \<notin> set (map oid (requests db))) \<longrightarrow>
            (\<exists>ap.
               appointment_requests_POST env db body =
                 (Json ap, if b_autoConfirm body
                           then db\<lparr>appointments := appointments db @ [ap]\<rparr>
                           else db\<lparr>requests := requests db @ [ap]\<rparr>) \<and>
               oid ap = newId env \<and>
               appointmentKey ap = generateAppointmentKey (random900000 env) \<and>
               status ap = ''pending'' \<and> doctorId ap = did \<and> patientId ap = p \<and>
               date ap = the (b_date body) \<and> time ap = the (b_time body))) \<and>
         (\<forall>did p pre a post aid pid envc.
            ObjectId (the (b_doctorId body)) = Some did \<and>
            ObjectId (the (b_patientId body)) = Some p \<and>
            distinct (map oid (appointments db)) \<and>
            appointments db = pre @ a # post \<and>
            slotTaken did (the (b_date body)) (the (b_time body)) a \<and>
            \<not> list_ex (slotTaken did (the (b_date body)) (the (b_time body))) (pre @ post) \<and>
            ObjectId aid = Some (oid a) \<and> ObjectId pid = Some (patientId a) \<and>
            insertable db (newId env) (bookingKey env body) \<longrightarrow>
            (\<exists>db1 ap.
               appointments_PUT envc db
                 \<lparr>c_appointmentId = Some aid, c_status = Some ''cancelled'',
                  c_patientId = Some pid\<rparr> = (Json (), db1) \<and>
               appointments_POST env db1 body =
                 (Json ap, db1\<lparr>appointments := appointments db1 @ [ap]\<rparr>) \<and>
               status ap = ''pending'' \<and> doctorId ap = did \<and>
               date ap = the (b_date body) \<and> time ap = the (b_time body))) \<and>
         (\<forall>did p pre a post aid pid envc.
            ObjectId (the (b_doctorId body)) = Some did \<and>
            ObjectId (the (b_patientId body)) = Some p \<and>
            distinct (map oid (appointments db)) \<and>
            appointments db = pre @ a # post \<and>
            slotTaken did (the (b_date body)) (the (b_time body)) a \<and>
            \<not> list_ex (slotTaken did (the (b_date body)) (the (b_time body))) (pre @ post) \<and>
            ObjectId aid = Some (oid a) \<and> ObjectId pid = Some (patientId a) \<and>
            \<not> requestHeld db (the (b_doctorId body)) (the (b_date body)) (the (b_time body)) \<and>
            (if b_autoConfirm body
             then insertable db (newId env) (generateAppointmentKey (random900000 env))
             else newId env \<notin> set (map oid (requests db))) \<longrightarrow>
            (\<exists>db1 ap.
               appointments_PUT envc db
                 \<lparr>c_appointmentId = Some aid, c_status = Some ''cancelled'',
                  c_patientId = Some pid\<rparr> = (Json (), db1) \<and>
               appointment_requests_POST env db1 body =
                 (Json ap, if b_autoConfirm body
                           then db1\<lparr>appointments := appointments db1 @ [ap]\<rparr>
                           else db1\<lparr>requests := requests db1 @ [ap]\<rparr>) \<and>
               status ap = ''pending'' \<and> doctorId ap = did \<and>
               date ap = the (b_date body) \<and> time ap = the (b_time body)))"

proof (intro conjI)
  show c1: "(fst (appointments_POST env db body) = Error 400 ''Time slot already booked'') =
           slotHeld db (the (b_doctorId body)) (the (b_date body)) (the (b_time body))"
    using assms by (rule appointments_POST_conflict_iff)
  show "\<forall>c m. fst (appointments_POST env db body) = Error c m \<longrightarrow>
            snd (appointments_POST env db body) = db"
    using appointments_POST_error_keeps_db by blast
  show c3: "(fst (appointment_requests_POST env db body) = Error 400 ''Time slot already booked'') =
           slotHeld db (the (b_doctorId body)) (the (b_date body)) (the (b_time body))"
    using assms by (rule appointment_requests_POST_conflict_iff)
  show "(fst (appointment_requests_POST env db body) =
            Error 400 ''Appointment request already exists for this slot'') =
           (\<not> slotHeld db (the (b_doctorId body)) (the (b_date body)) (the (b_time body)) \<and>
            requestHeld db (the (b_doctorId body)) (the (b_date body)) (the (b_time body)))"
    using assms by (rule appointment_requests_POST_request_iff)
  show "\<forall>c m. fst (appointment_requests_POST env db body) = Error c m \<longrightarrow>
            snd (appointment_requests_POST env db body) = db"
    using appointment_requests_POST_error_keeps_db by blast
  show "(\<forall>a \<in> set (appointments db).
              status a = ''cancelled'' \<or> status a = ''rejected'' \<or> status a = ''completed'') \<longrightarrow>
            fst (appointments_POST env db body) \<noteq> Error 400 ''Time slot already booked'' \<and>
            fst (appointment_requests_POST env db body) \<noteq> Error 400 ''Time slot already booked''"
  proof
    assume h: "\<forall>a \<in> set (appointments db).
      status a = ''cancelled'' \<or> status a = ''rejected'' \<or> status a = ''completed''"
    have "\<not> slotHeld db (the (b_doctorId body)) (the (b_date body)) (the (b_time body))"
      using h by (auto simp: slotHeld_def list_ex_iff slotTaken_def split: option.splits)
    with c1 c3 show "fst (appointments_POST env db body) \<noteq> Error 400 ''Time slot already booked'' \<and>
        fst (appointment_requests_POST env db body) \<noteq> Error 400 ''Time slot already booked''"
      by simp
  qed
  show "\<forall>did p.
            ObjectId (the (b_doctorId body)) = Some did \<and>
            ObjectId (the (b_patientId body)) = Some p \<and>
            \<not> slotHeld db (the (b_doctorId body)) (the (b_date body)) (the (b_time body)) \<and>
            insertable db (newId env) (bookingKey env body) \<longrightarrow>
            (\<exists>ap.
               appointments_POST env db body =
                 (Json ap, db\<lparr>appointments := appointments db @ [ap]\<rparr>) \<and>
               oid ap = newId env \<and> appointmentKey ap = bookingKey env body \<and>
               status ap = ''pending'' \<and> doctorId ap = did \<and> patientId ap = p \<and>
               date ap = the (b_date body) \<and> time ap = the (b_time body))"
    using appointments_POST_free [OF assms, of _ _ db env] by blast
  show "\<forall>did p.
            ObjectId (the (b_doctorId body)) = Some did \<and>
            ObjectId (the (b_patientId body)) = Some p \<and>
            \<not> slotHeld db (the (b_doctorId body)) (the (b_date body)) (the (b_time body)) \<and>
            \<not> requestHeld db (the (b_doctorId body)) (the (b_date body)) (the (b_time body)) \<and>
            (if b_autoConfirm body
             then insertable db (newId env) (generateAppointmentKey (random900000 env))
             else newId env \<notin> set (map oid (requests db))) \<longrightarrow>
            (\<exists>ap.
               appointment_requests_POST env db body =
                 (Json ap, if b_autoConfirm body
                           then db\<lparr>appointments := appointments db @ [ap]\<rparr>
                           else db\<lparr>requests := requests db @ [ap]\<rparr>) \<and>
               oid ap = newId env \<and>
               appointmentKey ap = generateAppointmentKey (random900000 env) \<and>
               status ap = ''pending'' \<and> doctorId ap = did \<and> patientId ap = p \<and>
               date ap = the (b_date body) \<and> time ap = the (b_time body))"
  proof (intro allI impI)
    fix did p
    assume h: "ObjectId (the (b_doctorId body)) = Some did \<and>
            ObjectId (the (b_patientId body)) = Some p \<and>
            \<not> slotHeld db (the (b_doctorId body)) (the (b_date body)) (the (b_time body)) \<and>
            \<not> requestHeld db (the (b_doctorId body)) (the (b_date body)) (the (b_time body)) \<and>
            (if b_autoConfirm body
             then insertable db (newId env) (generateAppointmentKey (random900000 env))
             else newId env \<notin> set (map oid (requests db)))"
    from h have i: "if b_autoConfirm body
         then insertable db (newId env) (generateAppointmentKey (random900000 env))
         else newId env \<notin> set (map oid (requests db))" by blast
    from h show "\<exists>ap.
               appointment_requests_POST env db body =
                 (Json ap, if b_autoConfirm body
                           then db\<lparr>appointments := appointments db @ [ap]\<rparr>
                           else db\<lparr>requests := requests db @ [ap]\<rparr>) \<and>
               oid ap = newId env \<and>
               appointmentKey ap = generateAppointmentKey (random900000 env) \<and>
               status ap = ''pending'' \<and> doctorId ap = did \<and> patientId ap = p \<and>
               date ap = the (b_date body) \<and> time ap = the (b_time body)"
      using appointment_requests_POST_free [OF assms, of did p db env, OF _ _ _ _ i] by blast
  qed
  show "\<forall>did p pre a post aid pid envc.
            ObjectId (the (b_doctorId body)) = Some did \<and>
            ObjectId (the (b_patientId body)) = Some p \<and>
            distinct (map oid (appointments db)) \<and>
            appointments db = pre @ a # post \<and>
            slotTaken did (the (b_date body)) (the (b_time body)) a \<and>
            \<not> list_ex (slotTaken did (the (b_date body)) (the (b_time body))) (pre @ post) \<and>
            ObjectId aid = Some (oid a) \<and> ObjectId pid = Some (patientId a) \<and>
            insertable db (newId env) (bookingKey env body) \<longrightarrow>
            (\<exists>db1 ap.
               appointments_PUT envc db
                 \<lparr>c_appointmentId = Some aid, c_status = Some ''cancelled'',
                  c_patientId = Some pid\<rparr> = (Json (), db1) \<and>
               appointments_POST env db1 body =
                 (Json ap, db1\<lparr>appointments := appointments db1 @ [ap]\<rparr>) \<and>
               status ap = ''pending'' \<and> doctorId ap = did \<and>
               date ap = the (b_date body) \<and> time ap = the (b_time body))"
  proof (intro allI impI)
    fix did p pre a post aid pid envc
    assume h: "ObjectId (the (b_doctorId body)) = Some did \<and>
            ObjectId (the (b_patientId body)) = Some p \<and>
            distinct (map oid (appointments db)) \<and>
            appointments db = pre @ a # post \<and>
            slotTaken did (the (b_date body)) (the (b_time body)) a \<and>
            \<not> list_ex (slotTaken did (the (b_date body)) (the (b_time body))) (pre @ post) \<and>
            ObjectId aid = Some (oid a) \<and> ObjectId pid = Some (patientId a) \<and>
            insertable db (newId env) (bookingKey env body)"
    then have live: "status a \<noteq> ''cancelled''" by (auto simp: slotTaken_def)
    from h show "\<exists>db1 ap.
               appointments_PUT envc db
                 \<lparr>c_appointmentId = Some aid, c_status = Some ''cancelled'',
                  c_patientId = Some pid\<rparr> = (Json (), db1) \<and>
               appointments_POST env db1 body =
                 (Json ap, db1\<lparr>appointments := appointments db1 @ [ap]\<rparr>) \<and>
               status ap = ''pending'' \<and> doctorId ap = did \<and>
               date ap = the (b_date body) \<and> time ap = the (b_time body)"
      using cancel_then_book [OF assms, of did p db pre a post aid pid env envc] live
      by blast
  qed
  show "\<forall>did p pre a post aid pid envc.
            ObjectId (the (b_doctorId body)) = Some did \<and>
            ObjectId (the (b_patientId body)) = Some p \<and>
            distinct (map oid (appointments db)) \<and>
            appointments db = pre @ a # post \<and>
            slotTaken did (the (b_date body)) (the (b_time body)) a \<and>
            \<not> list_ex (slotTaken did (the (b_date body)) (the (b_time body))) (pre @ post) \<and>
            ObjectId aid = Some (oid a) \<and> ObjectId pid = Some (patientId a) \<and>
            \<not> requestHeld db (the (b_doctorId body)) (the (b_date body)) (the (b_time body)) \<and>
            (if b_autoConfirm body
             then insertable db (newId env) (generateAppointmentKey (random900000 env))
             else newId env \<notin> set (map oid (requests db))) \<longrightarrow>
            (\<exists>db1 ap.
               appointments_PUT envc db
                 \<lparr>c_appointmentId = Some aid, c_status = Some ''cancelled'',
                  c_patientId = Some pid\<rparr> = (Json (), db1) \<and>
               appointment_requests_POST env db1 body =
                 (Json ap, if b_autoConfirm body
                           then db1\<lparr>appointments := appointments db1 @ [ap]\<rparr>
                           else db1\<lparr>requests := requests db1 @ [ap]\<rparr>) \<and>
               status ap = ''pending'' \<and> doctorId ap = did \<and>
               date ap = the (b_date body) \<and> time ap = the (b_time body))"
  proof (intro allI impI)
    fix did p pre a post aid pid envc
    assume h: "ObjectId (the (b_doctorId body)) = Some did \<and>
            ObjectId (the (b_patientId body)) = Some p \<and>
            distinct (map oid (appointments db)) \<and>
            appointments db = pre @ a # post \<and>
            slotTaken did (the (b_date body)) (the (b_time body)) a \<and>
            \<not> list_ex (slotTaken did (the (b_date body)) (the (b_time body))) (pre @ post) \<and>
            ObjectId aid = Some (oid a) \<and> ObjectId pid = Some (patientId a) \<and>
            \<not> requestHeld db (the (b_doctorId body)) (the (b_date body)) (the (b_time body)) \<and>
            (if b_autoConfirm body
             then insertable db (newId env) (generateAppointmentKey (random900000 env))
             else newId env \<notin> set (map oid (requests db)))"
    then have live: "status a \<noteq> ''cancelled''" by (auto simp: slotTaken_def)
    from h have i: "if b_autoConfirm body
         then insertable db (newId env) (generateAppointmentKey (random900000 env))
         else newId env \<notin> set (map oid (requests db))" by blast
    from h show "\<exists>db1 ap.
               appointments_PUT envc db
                 \<lparr>c_appointmentId = Some aid, c_status = Some ''cancelled'',
                  c_patientId = Some pid\<rparr> = (Json (), db1) \<and>
               appointment_requests_POST env db1 body =
                 (Json ap, if b_autoConfirm body
                           then db1\<lparr>appointments := appointments db1 @ [ap]\<rparr>
                           else db1\<lparr>requests := requests db1 @ [ap]\<rparr>) \<and>
               status ap = ''pending'' \<and> doctorId ap = did \<and>
               date ap = the (b_date body) \<and> time ap = the (b_time body)"
      using cancel_then_request [OF assms, of did p db pre a post aid pid env envc,
          OF _ _ _ _ _ _ _ live _ i]
      by blast
  qed
qed


lemma oid_p2_truthy: "truthy (b_patientId bodyB)" "truthy (b_doctorId bodyB)"
  "truthy (b_date bodyB)" "truthy (b_time bodyB)"
  by (simp_all add: bodyB_def)

lemma bodyA_truthy: "truthy (b_doctorId bodyA)" "truthy (b_patientId bodyA)"
  "truthy (b_date bodyA)" "truthy (b_time bodyA)"
  by (simp_all add: bodyA_def)

text \<open>
  The second patient asks for the slot that the first patient holds, and again after the
  first patient has cancelled; the first patient asks for a slot for which only a request
  of the second patient is pending.
\<close>

theorem booking_refused_iff_slot_or_request_held_witness:
  "truthy (b_doctorId bodyB) \<and> truthy (b_patientId bodyB) \<and>
   truthy (b_date bodyB) \<and> truthy (b_time bodyB) \<and>
   slotHeld dbA ''aaaaaaaaaaaaaaaaaaaaaaaa'' ''2025-09-15'' ''09:00'' \<and>
   fst (appointments_POST envB dbA bodyB) = Error 400 ''Time slot already booked'' \<and>
   snd (appointments_POST envB dbA bodyB) = dbA \<and>
   fst (appointment_requests_POST envB dbA bodyB) = Error 400 ''Time slot already booked'' \<and>
   snd (appointment_requests_POST envB dbA bodyB) = dbA \<and>
   (\<exists>db1 ap.
      appointments_PUT envC dbA cancelA = (Json (), db1) \<and>
      appointments_POST envB db1 bodyB = (Json ap, db1\<lparr>appointments := appointments db1 @ [ap]\<rparr>) \<and>
      status ap = ''pending'' \<and> doctorId ap = ''aaaaaaaaaaaaaaaaaaaaaaaa'' \<and>
      date ap = ''2025-09-15'' \<and> time ap = ''09:00'') \<and>
   (\<exists>db1 ap.
      appointments_PUT envC dbA cancelA = (Json (), db1) \<and>
      appointment_requests_POST envB db1 bodyB = (Json ap, db1\<lparr>requests := requests db1 @ [ap]\<rparr>) \<and>
      status ap = ''pending'' \<and> doctorId ap = ''aaaaaaaaaaaaaaaaaaaaaaaa'' \<and>
      date ap = ''2025-09-15'' \<and> time ap = ''09:00'') \<and>
   truthy (b_doctorId bodyA) \<and> truthy (b_patientId bodyA) \<and>
   truthy (b_date bodyA) \<and> truthy (b_time bodyA) \<and>
   requestHeld dbRequested ''aaaaaaaaaaaaaaaaaaaaaaaa'' ''2025-09-15'' ''09:00'' \<and>
   \<not> slotHeld dbRequested ''aaaaaaaaaaaaaaaaaaaaaaaa'' ''2025-09-15'' ''09:00'' \<and>
   fst (appointment_requests_POST envA dbRequested bodyA) =
     Error 400 ''Appointment request already exists for this slot'' \<and>
   snd (appointment_requests_POST envA dbRequested bodyA) = dbRequested \<and>
   (\<exists>ap. appointments_POST envA dbRequested bodyA =
           (Json ap, dbRequested\<lparr>appointments := appointments dbRequested @ [ap]\<rparr>) \<and>
         status ap = ''pending'' \<and> doctorId ap = ''aaaaaaaaaaaaaaaaaaaaaaaa'' \<and>
         date ap = ''2025-09-15'' \<and> time ap = ''09:00'')"
proof -
  note T = booking_refused_iff_slot_or_request_held [OF oid_p2_truthy(2) oid_p2_truthy(1)
      oid_p2_truthy(3) oid_p2_truthy(4), of envB dbA]
  note U = booking_refused_iff_slot_or_request_held [OF bodyA_truthy, of envA dbRequested]
  note T1 = T [THEN conjunct1]
  note T2 = T [THEN conjunct2, THEN conjunct1]
  note T3 = T [THEN conjunct2, THEN conjunct2, THEN conjunct1]
  note T5 = T [THEN conjunct2, THEN conjunct2, THEN conjunct2, THEN conjunct2, THEN conjunct1]
  note T9 = T [
      THEN conjunct2, THEN conjunct2, THEN conjunct2, THEN conjunct2, THEN conjunct2,
      THEN conjunct2, THEN conjunct2, THEN conjunct2, THEN conjunct1]
  note T10 = T [
      THEN conjunct2, THEN conjunct2, THEN conjunct2, THEN conjunct2, THEN conjunct2,
      THEN conjunct2, THEN conjunct2, THEN conjunct2, THEN conjunct2]
  note U4 = U [THEN conjunct2, THEN conjunct2, THEN conjunct2, THEN conjunct1]
  note U5 = U [THEN conjunct2, THEN conjunct2, THEN conjunct2, THEN conjunct2, THEN conjunct1]
  note U7 = U [
      THEN conjunct2, THEN conjunct2, THEN conjunct2, THEN conjunct2, THEN conjunct2,
      THEN conjunct2, THEN conjunct1]
  have held: "slotHeld dbA ''aaaaaaaaaaaaaaaaaaaaaaaa'' ''2025-09-15'' ''09:00''"
    by (simp add: slotHeld_def oid_doctor dbA_def emptyDb_def apptA_def slotTaken_def)
  have sel: "the (b_doctorId bodyB) = ''aaaaaaaaaaaaaaaaaaaaaaaa''"
    "the (b_patientId bodyB) = ''222222222222222222222222''"
    "the (b_date bodyB) = ''2025-09-15''" "the (b_time bodyB) = ''09:00''"
    by (simp_all add: bodyB_def)
  have selA: "the (b_doctorId bodyA) = ''aaaaaaaaaaaaaaaaaaaaaaaa''"
    "the (b_patientId bodyA) = ''111111111111111111111111''"
    "the (b_date bodyA) = ''2025-09-15''" "the (b_time bodyA) = ''09:00''"
    by (simp_all add: bodyA_def)
  from T1 held have conflict: "fst (appointments_POST envB dbA bodyB) = Error 400 ''Time slot already booked''"
    by (simp add: sel)
  from T2 [rule_format, OF conflict]
  have same: "snd (appointments_POST envB dbA bodyB) = dbA" .
  from T3 held have conflict2:
    "fst (appointment_requests_POST envB dbA bodyB) = Error 400 ''Time slot already booked''"
    by (simp add: sel)
  from T5 [rule_format, OF conflict2]
  have same2: "snd (appointment_requests_POST envB dbA bodyB) = dbA" .
  have prem: "ObjectId (the (b_doctorId bodyB)) = Some ''aaaaaaaaaaaaaaaaaaaaaaaa'' \<and>
      ObjectId (the (b_patientId bodyB)) = Some ''222222222222222222222222'' \<and>
      distinct (map oid (appointments dbA)) \<and>
      appointments dbA = [] @ apptA # [] \<and>
      slotTaken ''aaaaaaaaaaaaaaaaaaaaaaaa'' (the (b_date bodyB)) (the (b_time bodyB)) apptA \<and>
      \<not> list_ex (slotTaken ''aaaaaaaaaaaaaaaaaaaaaaaa'' (the (b_date bodyB)) (the (b_time bodyB)))
           ([] @ []) \<and>
      ObjectId ''c00000000000000000000001'' = Some (oid apptA) \<and>
      ObjectId ''111111111111111111111111'' = Some (patientId apptA) \<and>
      insertable dbA (newId envB) (bookingKey envB bodyB)"
    by (simp add: sel oid_doctor oid_p2 oid_p1 oid_a1 dbA_def emptyDb_def apptA_def slotTaken_def
        insertable_def bookingKey_def envB_def bodyB_def key_554321)
  have prem2: "ObjectId (the (b_doctorId bodyB)) = Some ''aaaaaaaaaaaaaaaaaaaaaaaa'' \<and>
      ObjectId (the (b_patientId bodyB)) = Some ''222222222222222222222222'' \<and>
      distinct (map oid (appointments dbA)) \<and>
      appointments dbA = [] @ apptA # [] \<and>
      slotTaken ''aaaaaaaaaaaaaaaaaaaaaaaa'' (the (b_date bodyB)) (the (b_time bodyB)) apptA \<and>
      \<not> list_ex (slotTaken ''aaaaaaaaaaaaaaaaaaaaaaaa'' (the (b_date bodyB)) (the (b_time bodyB)))
           ([] @ []) \<and>
      ObjectId ''c00000000000000000000001'' = Some (oid apptA) \<and>
      ObjectId ''111111111111111111111111'' = Some (patientId apptA) \<and>
      \<not> requestHeld dbA (the (b_doctorId bodyB)) (the (b_date bodyB)) (the (b_time bodyB)) \<and>
      (if b_autoConfirm bodyB
       then insertable dbA (newId envB) (generateAppointmentKey (random900000 envB))
       else newId envB \<notin> set (map oid (requests dbA)))"
    by (simp add: sel oid_doctor oid_p2 oid_p1 oid_a1 dbA_def emptyDb_def apptA_def slotTaken_def
        requestHeld_def bodyB_def)
  from T9 [rule_format, OF prem, of envC]
  have rebook: "\<exists>db1 ap.
      appointments_PUT envC dbA cancelA = (Json (), db1) \<and>
      appointments_POST envB db1 bodyB = (Json ap, db1\<lparr>appointments := appointments db1 @ [ap]\<rparr>) \<and>
      status ap = ''pending'' \<and> doctorId ap = ''aaaaaaaaaaaaaaaaaaaaaaaa'' \<and>
      date ap = ''2025-09-15'' \<and> time ap = ''09:00''"
    by (simp add: sel cancelA_def)
  have nb: "\<not> b_autoConfirm bodyB" by (simp add: bodyB_def)
  from T10 [rule_format, OF prem2, of envC]
  have rerequest: "\<exists>db1 ap.
      appointments_PUT envC dbA cancelA = (Json (), db1) \<and>
      appointment_requests_POST envB db1 bodyB = (Json ap, db1\<lparr>requests := requests db1 @ [ap]\<rparr>) \<and>
      status ap = ''pending'' \<and> doctorId ap = ''aaaaaaaaaaaaaaaaaaaaaaaa'' \<and>
      date ap = ''2025-09-15'' \<and> time ap = ''09:00''"
    by (simp add: sel cancelA_def nb)
  have rq: "requestHeld dbRequested ''aaaaaaaaaaaaaaaaaaaaaaaa'' ''2025-09-15'' ''09:00''"
    by (simp add: requestHeld_def oid_doctor dbRequested_def emptyDb_def apptB_def
        requestPending_def)
  have free: "\<not> slotHeld dbRequested ''aaaaaaaaaaaaaaaaaaaaaaaa'' ''2025-09-15'' ''09:00''"
    by (simp add: slotHeld_def oid_doctor dbRequested_def emptyDb_def)
  from U4 rq free have refused: "fst (appointment_requests_POST envA dbRequested bodyA) =
      Error 400 ''Appointment request already exists for this slot''"
    by (simp add: selA)
  from U5 [rule_format, OF refused]
  have kept: "snd (appointment_requests_POST envA dbRequested bodyA) = dbRequested" .
  have premA: "ObjectId (the (b_doctorId bodyA)) = Some ''aaaaaaaaaaaaaaaaaaaaaaaa'' \<and>
      ObjectId (the (b_patientId bodyA)) = Some ''111111111111111111111111'' \<and>
      \<not> slotHeld dbRequested (the (b_doctorId bodyA)) (the (b_date bodyA)) (the (b_time bodyA)) \<and>
      insertable dbRequested (newId envA) (bookingKey envA bodyA)"
    using free by (simp add: selA oid_doctor oid_p1 dbRequested_def emptyDb_def insertable_def)
  from U7 [rule_format, OF premA]
  have booked: "\<exists>ap. appointments_POST envA dbRequested bodyA =
           (Json ap, dbRequested\<lparr>appointments := appointments dbRequested @ [ap]\<rparr>) \<and>
         status ap = ''pending'' \<and> doctorId ap = ''aaaaaaaaaaaaaaaaaaaaaaaa'' \<and>
         date ap = ''2025-09-15'' \<and> time ap = ''09:00''"
    by (auto simp: selA)
  from held conflict same conflict2 same2 rebook rerequest rq free refused kept booked
    oid_p2_truthy bodyA_truthy
  show ?thesis by blast
qed

text \<open>
  The claim fails on the requests route.  The second patient has a pending request for
  Monday 2025-09-15 at 09:00 and no appointment holds that slot: the first patient's
  request for it is refused.  The first patient then books the slot through
  \<open>POST /api/appointments\<close> and cancels; the slot is free again, and a request for it is
  still refused.
\<close>

theorem request_refused_for_free_slot_counterexample:
  "\<not> slotHeld dbRequested ''aaaaaaaaaaaaaaaaaaaaaaaa'' ''2025-09-15'' ''09:00'' \<and>
   appointment_requests_POST envA dbRequested bodyA =
     (Error 400 ''Appointment request already exists for this slot'', dbRequested) \<and>
   appointments_POST envA dbRequested bodyA =
     (Json apptA, dbRequested\<lparr>appointments := [apptA]\<rparr>) \<and>
   appointments_PUT envC (dbRequested\<lparr>appointments := [apptA]\<rparr>) cancelA =
     (Json (), dbRequested\<lparr>appointments :=
                 [apptA\<lparr>status := ''cancelled'', updatedAt := 1757000030000\<rparr>]\<rparr>) \<and>
   \<not> slotHeld (dbRequested\<lparr>appointments :=
                 [apptA\<lparr>status := ''cancelled'', updatedAt := 1757000030000\<rparr>]\<rparr>)
       ''aaaaaaaaaaaaaaaaaaaaaaaa'' ''2025-09-15'' ''09:00'' \<and>
   appointment_requests_POST envC
       (dbRequested\<lparr>appointments :=
          [apptA\<lparr>status := ''cancelled'', updatedAt := 1757000030000\<rparr>]\<rparr>) bodyA =
     (Error 400 ''Appointment request already exists for this slot'',
      dbRequested\<lparr>appointments :=
        [apptA\<lparr>status := ''cancelled'', updatedAt := 1757000030000\<rparr>]\<rparr>)"
  by (simp add: slotHeld_def appointment_requests_POST_def appointments_POST_def
      appointments_PUT_def oid_doctor oid_p1 oid_a1 is_hex24_def is_hex_def hex_lower_def
      findOne_def slotTaken_def requestPending_def dbRequested_def emptyDb_def apptA_def
      apptB_def bodyA_def envA_def envC_def cancelA_def key_23456 newAppointment_def
      insertOne_def or_default_def Let_def)
lemma appointments_PUT_shape:
  assumes "appointments_PUT env db cb = (Json (), db')"
  shows "\<exists>pre a post. appointments db = pre @ a # post \<and>
           ObjectId (the (c_appointmentId cb)) = Some (oid a) \<and>
           (\<forall>x \<in> set pre. oid x \<noteq> oid a) \<and>
           db' = db\<lparr>appointments := pre @ a\<lparr>status := ''cancelled'', updatedAt := now env\<rparr> # post\<rparr>"
proof -
  define aid where "aid = map hex_lower (the (c_appointmentId cb))"
  define pid where "pid = map hex_lower (the (c_patientId cb))"
  from assms have hx: "is_hex24 (the (c_appointmentId cb))"
    by (auto simp: appointments_PUT_def split: if_splits)
  from assms obtain ap where
    f: "findOne (\<lambda>a. oid a = aid \<and> patientId a = pid) (appointments db) = Some ap"
    by (auto simp: appointments_PUT_def Let_def aid_def pid_def split: if_splits option.splits)
  then have ap: "ap \<in> set (appointments db)" "oid ap = aid"
    using findOne_Some [OF f] by auto
  have "list_ex (\<lambda>x. oid x = aid) (appointments db)" using ap by (auto simp: list_ex_iff)
  from updateOne_cancel_split [OF this, of "now env"] obtain pre a post where
    sp: "appointments db = pre @ a # post" "oid a = aid" "\<forall>x \<in> set pre. oid x \<noteq> aid"
      "updateOne_cancel aid (now env) (appointments db) =
         (pre @ a\<lparr>status := ''cancelled'', updatedAt := now env\<rparr> # post,
          if a\<lparr>status := ''cancelled'', updatedAt := now env\<rparr> = a then 0 else 1)"
    by blast
  have "db' = db\<lparr>appointments := pre @ a\<lparr>status := ''cancelled'', updatedAt := now env\<rparr> # post\<rparr>"
    using assms f sp(4)
    by (auto simp: appointments_PUT_def Let_def aid_def pid_def split: if_splits option.splits)
  then show ?thesis
    using sp(1,2,3) hx
    by (intro exI [of _ pre] exI [of _ a] exI [of _ post]) (simp add: ObjectId_Some aid_def)
qed

lemma appointments_PUT_not_owner:
  assumes "distinct (map oid (appointments db))" and "a \<in> set (appointments db)"
    and "ObjectId aid = Some (oid a)" and "ObjectId pid = Some p" and "p \<noteq> patientId a"
  shows "appointments_PUT env db
           \<lparr>c_appointmentId = Some aid, c_status = Some ''cancelled'', c_patientId = Some pid\<rparr> =
         (Error 404 ''Appointment not found or unauthorized'', db)"
proof -
  have hx: "is_hex24 aid" "map hex_lower aid = oid a" "is_hex24 pid" "map hex_lower pid = p"
    using assms(3,4) by (auto simp: ObjectId_Some)
  have "\<not> list_ex (\<lambda>x. oid x = oid a \<and> patientId x = p) (appointments db)"
    using distinct_oid_unique [OF assms(1) _ assms(2)] assms(5) by (auto simp: list_ex_iff)
  then have "findOne (\<lambda>x. oid x = oid a \<and> patientId x = p) (appointments db) = None"
    by (simp add: findOne_None)
  then show ?thesis
    using hx is_hex24_truthy [OF hx(1)] is_hex24_truthy [OF hx(3)]
    by (simp add: appointments_PUT_def Let_def)
qed

lemma appointments_PUT_already_cancelled:
  assumes "distinct (map oid (appointments db))" and "a \<in> set (appointments db)"
    and "ObjectId aid = Some (oid a)" and "ObjectId pid = Some (patientId a)"
    and "status a = ''cancelled''"
  shows "appointments_PUT env db
           \<lparr>c_appointmentId = Some aid, c_status = Some ''cancelled'', c_patientId = Some pid\<rparr> =
         (Error 400 ''Appointment is already cancelled'', db)"
proof -
  have hx: "is_hex24 aid" "map hex_lower aid = oid a" "is_hex24 pid" "map hex_lower pid = patientId a"
    using assms(3,4) by (auto simp: ObjectId_Some)
  have "list_ex (\<lambda>x. oid x = oid a \<and> patientId x = patientId a) (appointments db)"
    using assms(2) by (auto simp: list_ex_iff)
  then obtain ap where
    f: "findOne (\<lambda>x. oid x = oid a \<and> patientId x = patientId a) (appointments db) = Some ap"
    using findOne_None [of "\<lambda>x. oid x = oid a \<and> patientId x = patientId a" "appointments db"]
    by (cases "findOne (\<lambda>x. oid x = oid a \<and> patientId x = patientId a) (appointments db)") auto
  have "ap = a"
    using findOne_Some [OF f] distinct_oid_unique [OF assms(1) _ assms(2)] by auto
  then show ?thesis
    using hx is_hex24_truthy [OF hx(1)] is_hex24_truthy [OF hx(3)] f assms(5)
    by (simp add: appointments_PUT_def Let_def)
qed

text \<open>
  C9.  Ids are unique in the collection.  A cancellation that succeeds was asked by the
  patient who owns the appointment, for an appointment not yet cancelled, and it sets the
  status to cancelled.  Asked by another patient it is answered 404 and nothing changes;
  asked by the owner for an appointment that is already cancelled it is answered 400
  ``Appointment is already cancelled'' and nothing changes; asked by the owner for any other
  appointment it succeeds.
\<close>

theorem cancellation_by_owner_only:
  assumes "distinct (map oid (appointments db))"
  shows "(\<forall>cb db'. appointments_PUT env db cb = (Json (), db') \<longrightarrow>
            (\<exists>pre a post. appointments db = pre @ a # post \<and>
               c_status cb = Some ''cancelled'' \<and>
               ObjectId (the (c_appointmentId cb)) = Some (oid a) \<and>
               ObjectId (the (c_patientId cb)) = Some (patientId a) \<and>
               status a \<noteq> ''cancelled'' \<and>
               db' = db\<lparr>appointments :=
                          pre @ a\<lparr>status := ''cancelled'', updatedAt := now env\<rparr> # post\<rparr>)) \<and>
         (\<forall>a \<in> set (appointments db). \<forall>aid pid p.
            ObjectId aid = Some (oid a) \<and> ObjectId pid = Some p \<and> p \<noteq> patientId a \<longrightarrow>
            appointments_PUT env db
              \<lparr>c_appointmentId = Some aid, c_status = Some ''cancelled'', c_patientId = Some pid\<rparr> =
            (Error 404 ''Appointment not found or unauthorized'', db)) \<and>
         (\<forall>a \<in> set (appointments db). \<forall>aid pid.
            ObjectId aid = Some (oid a) \<and> ObjectId pid = Some (patientId a) \<and>
            status a = ''cancelled'' \<longrightarrow>
            appointments_PUT env db
              \<lparr>c_appointmentId = Some aid, c_status = Some ''cancelled'', c_patientId = Some pid\<rparr> =
            (Error 400 ''Appointment is already cancelled'', db)) \<and>
         (\<forall>a \<in> set (appointments db). \<forall>aid pid.
            ObjectId aid = Some (oid a) \<and> ObjectId pid = Some (patientId a) \<and>
            status a \<noteq> ''cancelled'' \<longrightarrow>
            fst (appointments_PUT env db
              \<lparr>c_appointmentId = Some aid, c_status = Some ''cancelled'', c_patientId = Some pid\<rparr>) =
            Json ())"
proof (intro conjI allI ballI impI)
  fix cb db' assume "appointments_PUT env db cb = (Json (), db')"
  with assms show "\<exists>pre a post. appointments db = pre @ a # post \<and>
               c_status cb = Some ''cancelled'' \<and>
               ObjectId (the (c_appointmentId cb)) = Some (oid a) \<and>
               ObjectId (the (c_patientId cb)) = Some (patientId a) \<and>
               status a \<noteq> ''cancelled'' \<and>
               db' = db\<lparr>appointments :=
                          pre @ a\<lparr>status := ''cancelled'', updatedAt := now env\<rparr> # post\<rparr>"
    by (rule appointments_PUT_success)
next
  fix a aid pid p
  assume "a \<in> set (appointments db)"
    and "ObjectId aid = Some (oid a) \<and> ObjectId pid = Some p \<and> p \<noteq> patientId a"
  then show "appointments_PUT env db
              \<lparr>c_appointmentId = Some aid, c_status = Some ''cancelled'', c_patientId = Some pid\<rparr> =
            (Error 404 ''Appointment not found or unauthorized'', db)"
    using appointments_PUT_not_owner [OF assms] by blast
next
  fix a aid pid
  assume "a \<in> set (appointments db)"
    and "ObjectId aid = Some (oid a) \<and> ObjectId pid = Some (patientId a) \<and> status a = ''cancelled''"
  then show "appointments_PUT env db
              \<lparr>c_appointmentId = Some aid, c_status = Some ''cancelled'', c_patientId = Some pid\<rparr> =
            (Error 400 ''Appointment is already cancelled'', db)"
    using appointments_PUT_already_cancelled [OF assms] by blast
next
  fix a aid pid
  assume a: "a \<in> set (appointments db)"
    and h: "ObjectId aid = Some (oid a) \<and> ObjectId pid = Some (patientId a) \<and> status a \<noteq> ''cancelled''"
  from a obtain pre post where "appointments db = pre @ a # post"
    by (meson split_list)
  from appointments_PUT_ok [OF assms this, of aid pid env] h
  show "fst (appointments_PUT env db
              \<lparr>c_appointmentId = Some aid, c_status = Some ''cancelled'', c_patientId = Some pid\<rparr>) =
            Json ()"
    by simp
qed

theorem cancellation_by_owner_only_witness:
  "distinct (map oid (appointments dbA)) \<and> distinct (map oid (appointments dbCancelled)) \<and>
   appointments_PUT envC dbA
     \<lparr>c_appointmentId = Some ''c00000000000000000000001'', c_status = Some ''cancelled'',
      c_patientId = Some ''222222222222222222222222''\<rparr> =
     (Error 404 ''Appointment not found or unauthorized'', dbA) \<and>
   fst (appointments_PUT envC dbA cancelA) = Json () \<and>
   appointments_PUT envC dbCancelled cancelA =
     (Error 400 ''Appointment is already cancelled'', dbCancelled)"
proof -
  have d1: "distinct (map oid (appointments dbA))"
    by (simp add: dbA_def emptyDb_def)
  have d2: "distinct (map oid (appointments dbCancelled))"
    by (simp add: dbCancelled_def emptyDb_def)
  have in1: "apptA \<in> set (appointments dbA)"
    by (simp add: dbA_def emptyDb_def)
  have in2: "apptA\<lparr>status := ''cancelled'', updatedAt := 1757000030000\<rparr>
      \<in> set (appointments dbCancelled)"
    by (simp add: dbCancelled_def emptyDb_def)
  have ids: "ObjectId ''c00000000000000000000001'' = Some (oid apptA)"
    "ObjectId ''111111111111111111111111'' = Some (patientId apptA)"
    "ObjectId ''222222222222222222222222'' = Some ''222222222222222222222222''"
    "''222222222222222222222222'' \<noteq> patientId apptA" "status apptA \<noteq> ''cancelled''"
    by (simp_all add: apptA_def oid_a1 oid_p1 oid_p2)
  note T1 = cancellation_by_owner_only [OF d1, of envC]
  note T2 = cancellation_by_owner_only [OF d2, of envC]
  from T1 in1 ids have "appointments_PUT envC dbA
     \<lparr>c_appointmentId = Some ''c00000000000000000000001'', c_status = Some ''cancelled'',
      c_patientId = Some ''222222222222222222222222''\<rparr> =
     (Error 404 ''Appointment not found or unauthorized'', dbA)"
    by blast
  moreover from T1 in1 ids have "fst (appointments_PUT envC dbA
     \<lparr>c_appointmentId = Some ''c00000000000000000000001'', c_status = Some ''cancelled'',
      c_patientId = Some ''111111111111111111111111''\<rparr>) = Json ()"
    by blast
  moreover from T2 in2 ids have "appointments_PUT envC dbCancelled
     \<lparr>c_appointmentId = Some ''c00000000000000000000001'', c_status = Some ''cancelled'',
      c_patientId = Some ''111111111111111111111111''\<rparr> =
     (Error 400 ''Appointment is already cancelled'', dbCancelled)"
    by (simp add: apptA_def)
  ultimately show ?thesis using d1 d2 by (simp add: cancelA_def)
qed

text \<open>
  C10.  After a cancellation that succeeds, the collection is the old one with one
  document replaced, the first with the requested id.  In that document the status is
  cancelled and \<open>updatedAt\<close> is the time of the request; every other field is as before.
  The other collections and the index are untouched.
\<close>

theorem cancellation_frame:
  assumes "appointments_PUT env db cb = (Json (), db')"
  shows "\<exists>pre a a' post.
           appointments db = pre @ a # post \<and> appointments db' = pre @ a' # post \<and>
           ObjectId (the (c_appointmentId cb)) = Some (oid a) \<and>
           (\<forall>x \<in> set pre. oid x \<noteq> oid a) \<and>
           status a' = ''cancelled'' \<and> updatedAt a' = now env \<and>
           oid a' = oid a \<and> appointmentKey a' = appointmentKey a \<and>
           doctorId a' = doctorId a \<and> patientId a' = patientId a \<and>
           date a' = date a \<and> time a' = time a \<and>
           sessionStartTime a' = sessionStartTime a \<and> createdAt a' = createdAt a \<and>
           doctorName a' = doctorName a \<and> patientName a' = patientName a \<and>
           Adrees a' = Adrees a \<and>
           requests db' = requests db \<and> patients db' = patients db \<and>
           appointmentKey_idx db' = appointmentKey_idx db"
proof -
  from appointments_PUT_shape [OF assms] obtain pre a post where
    h: "appointments db = pre @ a # post" "ObjectId (the (c_appointmentId cb)) = Some (oid a)"
      "\<forall>x \<in> set pre. oid x \<noteq> oid a"
      "db' = db\<lparr>appointments := pre @ a\<lparr>status := ''cancelled'', updatedAt := now env\<rparr> # post\<rparr>"
    by blast
  show ?thesis
    using h
    by (intro exI [of _ pre] exI [of _ a]
        exI [of _ "a\<lparr>status := ''cancelled'', updatedAt := now env\<rparr>"] exI [of _ post]) simp
qed

theorem cancellation_frame_witness:
  "appointments_PUT envC dbA cancelA = (Json (), dbCancelled) \<and>
   (\<exists>pre a a' post.
      appointments dbA = pre @ a # post \<and> appointments dbCancelled = pre @ a' # post \<and>
      ObjectId (the (c_appointmentId cancelA)) = Some (oid a) \<and>
      (\<forall>x \<in> set pre. oid x \<noteq> oid a) \<and>
      status a' = ''cancelled'' \<and> updatedAt a' = now envC \<and>
      oid a' = oid a \<and> appointmentKey a' = appointmentKey a \<and>
      doctorId a' = doctorId a \<and> patientId a' = patientId a \<and>
      date a' = date a \<and> time a' = time a \<and>
      sessionStartTime a' = sessionStartTime a \<and> createdAt a' = createdAt a \<and>
      doctorName a' = doctorName a \<and> patientName a' = patientName a \<and>
      Adrees a' = Adrees a \<and>
      requests dbCancelled = requests dbA \<and> patients dbCancelled = patients dbA \<and>
      appointmentKey_idx dbCancelled = appointmentKey_idx dbA)"
proof -
  have h: "appointments_PUT envC dbA cancelA = (Json (), dbCancelled)"
    using first_cancel by (simp add: dbCancelled_def)
  from cancellation_frame [OF h] h show ?thesis by blast
qed

section \<open>Booking and the schedule\<close>

lemma gen_morning: "generateTimeSlots ''08:00'' ''11:00'' (Some 30) =
   Some (map mkTimeSlot [''08:00'', ''08:30'', ''09:00'', ''09:30'', ''10:00'', ''10:30''])"
  by (simp add: generateTimeSlots_def is_digit_def digit_val_def slots_while_ticks ticks.simps dateMin_def dateMax_def
      two_digits_def char_of_digits)

lemma gen_evening: "generateTimeSlots ''16:00'' ''21:00'' (Some 30) =
   Some (map mkTimeSlot [''16:00'', ''16:30'', ''17:00'', ''17:30'', ''18:00'', ''18:30'',
                         ''19:00'', ''19:30'', ''20:00'', ''20:30''])"
  by (simp add: generateTimeSlots_def is_digit_def digit_val_def slots_while_ticks ticks.simps dateMin_def dateMax_def
      two_digits_def char_of_digits)

lemma parseInt_30: "parseInt ''30'' = Some 30"
  by (simp add: parseInt_def is_digit_def digit_val_def is_space_def)

lemma parseInt_hex: "parseInt ''0x1E'' = Some 30"
  by (simp add: parseInt_def is_digit_def digit_val_def is_space_def is_hexdigit_def
      hexdigit_val_def)

lemma monday: "weekdayLong 1757894400000 = ''Monday''"
  by (simp add: weekdayLong_def day_number_def)

lemma default_slots:
  "fetchAvailableSlots [] ''aaaaaaaaaaaaaaaaaaaaaaaa'' 1757894400000 ([], []) =
     Some (map mkTimeSlot [''08:00'', ''08:30'', ''09:00'', ''09:30'', ''10:00'', ''10:30''],
           map mkTimeSlot [''16:00'', ''16:30'', ''17:00'', ''17:30'', ''18:00'', ''18:30'',
                           ''19:00'', ''19:30'', ''20:00'', ''20:30''])"
  by (simp add: fetchAvailableSlots_def schedule_GET_def is_hex24_def is_hex_def findOne_def
      dialog_generateTimeSlots_def monday findDay_def scheduleDefaultDays_def defaultDay_def
      generateSlotsForDay_def sessionSlots_def or_default_def parseInt_30 gen_morning gen_evening)

lemma no_slots: "fetchOptimizedSchedule [] ''aaaaaaaaaaaaaaaaaaaaaaaa'' 1757894400000 ([], []) = Some ([], [])"
  by (simp add: fetchOptimizedSchedule_def slots_optimized_GET_def is_hex24_def is_hex_def
      findOne_def slots_tail_def monday)

lemma odd_booking:
  "appointments_POST envA emptyDb (bodyA\<lparr>b_time := Some ''03:17''\<rparr>) =
     (Json (apptA\<lparr>time := ''03:17'', sessionStartTime := ''03:17''\<rparr>),
      emptyDb\<lparr>appointments := [apptA\<lparr>time := ''03:17'', sessionStartTime := ''03:17''\<rparr>]\<rparr>)"
  by (simp add: appointments_POST_def sample_defs eval_defs)

text \<open>
  The slots of a general Monday schedule from 09:00 to 10:00 with 30 minute slots, as the
  slot booking component shows them for Monday 2025-09-15.
\<close>

lemma general_monday_slots:
  "fetchOptimizedSchedule [generalDoc] ''aaaaaaaaaaaaaaaaaaaaaaaa'' 1757894400000 ([], []) =
     Some (map mkTimeSlot [''09:00'', ''09:30''], [])"
  by (simp add: fetchOptimizedSchedule_def slots_optimized_GET_def is_hex24_def is_hex_def
      hex_lower_def findOne_def generalDoc_def coversDate_def isGeneral_def hasDay_def
      elemMatchDay_def dayAnswer_def mondayFrom_def monday sessionSlots_def or_default_def
      parseInt_30 generateTimeSlots_def is_digit_def digit_val_def slots_while_ticks ticks.simps dateMin_def dateMax_def
      two_digits_def char_of_digits Let_def)

text \<open>
  C5, as the code has it.  The booking handler never reads the schedules.  A request with
  the four fields present, well-formed ids and a slot that no pending or confirmed
  appointment holds creates a pending appointment at the requested time, whatever that time
  is (the insert going through: a new \<open>_id\<close>, no key collision).
\<close>

theorem booking_ignores_schedule:
  assumes "truthy (b_doctorId body)" and "truthy (b_patientId body)"
    and "truthy (b_date body)" and "truthy (b_time body)"
    and "ObjectId (the (b_doctorId body)) = Some did"
    and "ObjectId (the (b_patientId body)) = Some pid"
    and "\<not> slotHeld db (the (b_doctorId body)) (the (b_date body)) (the (b_time body))"
    and "insertable db (newId env) (bookingKey env body)"
  shows "\<exists>a. appointments_POST env db body = (Json a, db\<lparr>appointments := appointments db @ [a]\<rparr>) \<and>
             doctorId a = did \<and> patientId a = pid \<and>
             date a = the (b_date body) \<and> time a = the (b_time body) \<and>
             status a = ''pending''"
  using appointments_POST_free [OF assms] by blast

theorem booking_ignores_schedule_witness:
  "truthy (b_doctorId (bodyA\<lparr>b_time := Some ''03:17''\<rparr>)) \<and>
   truthy (b_patientId (bodyA\<lparr>b_time := Some ''03:17''\<rparr>)) \<and>
   truthy (b_date (bodyA\<lparr>b_time := Some ''03:17''\<rparr>)) \<and>
   truthy (b_time (bodyA\<lparr>b_time := Some ''03:17''\<rparr>)) \<and>
   ObjectId (the (b_doctorId (bodyA\<lparr>b_time := Some ''03:17''\<rparr>))) =
     Some ''aaaaaaaaaaaaaaaaaaaaaaaa'' \<and>
   ObjectId (the (b_patientId (bodyA\<lparr>b_time := Some ''03:17''\<rparr>))) =
     Some ''111111111111111111111111'' \<and>
   \<not> slotHeld emptyDb (the (b_doctorId (bodyA\<lparr>b_time := Some ''03:17''\<rparr>)))
        (the (b_date (bodyA\<lparr>b_time := Some ''03:17''\<rparr>)))
        (the (b_time (bodyA\<lparr>b_time := Some ''03:17''\<rparr>))) \<and>
   insertable emptyDb (newId envA) (bookingKey envA (bodyA\<lparr>b_time := Some ''03:17''\<rparr>)) \<and>
   (\<exists>a. appointments_POST envA emptyDb (bodyA\<lparr>b_time := Some ''03:17''\<rparr>) =
           (Json a, emptyDb\<lparr>appointments := appointments emptyDb @ [a]\<rparr>) \<and>
         doctorId a = ''aaaaaaaaaaaaaaaaaaaaaaaa'' \<and> patientId a = ''111111111111111111111111'' \<and>
         date a = the (b_date (bodyA\<lparr>b_time := Some ''03:17''\<rparr>)) \<and>
         time a = the (b_time (bodyA\<lparr>b_time := Some ''03:17''\<rparr>)) \<and>
         status a = ''pending'')"
proof -
  have h: "truthy (b_doctorId (bodyA\<lparr>b_time := Some ''03:17''\<rparr>))"
    "truthy (b_patientId (bodyA\<lparr>b_time := Some ''03:17''\<rparr>))"
    "truthy (b_date (bodyA\<lparr>b_time := Some ''03:17''\<rparr>))"
    "truthy (b_time (bodyA\<lparr>b_time := Some ''03:17''\<rparr>))"
    "ObjectId (the (b_doctorId (bodyA\<lparr>b_time := Some ''03:17''\<rparr>))) =
       Some ''aaaaaaaaaaaaaaaaaaaaaaaa''"
    "ObjectId (the (b_patientId (bodyA\<lparr>b_time := Some ''03:17''\<rparr>))) =
       Some ''111111111111111111111111''"
    "\<not> slotHeld emptyDb (the (b_doctorId (bodyA\<lparr>b_time := Some ''03:17''\<rparr>)))
        (the (b_date (bodyA\<lparr>b_time := Some ''03:17''\<rparr>)))
        (the (b_time (bodyA\<lparr>b_time := Some ''03:17''\<rparr>)))"
    "insertable emptyDb (newId envA) (bookingKey envA (bodyA\<lparr>b_time := Some ''03:17''\<rparr>))"
    by (simp_all add: bodyA_def oid_doctor oid_p1 slotHeld_def emptyDb_def insertable_def)
  from booking_ignores_schedule [OF h] h show ?thesis by blast
qed

text \<open>
  The claim fails for a doctor without schedule documents on Monday 2025-09-15.  The
  booking dialog offers the slots of the default schedule, the slot booking component
  offers none, and 03:17 is in neither list; the request for 03:17 is accepted all the same.
\<close>

theorem booking_outside_schedule_counterexample:
  "fetchAvailableSlots [] ''aaaaaaaaaaaaaaaaaaaaaaaa'' 1757894400000 ([], []) =
     Some (map mkTimeSlot [''08:00'', ''08:30'', ''09:00'', ''09:30'', ''10:00'', ''10:30''],
           map mkTimeSlot [''16:00'', ''16:30'', ''17:00'', ''17:30'', ''18:00'', ''18:30'',
                           ''19:00'', ''19:30'', ''20:00'', ''20:30'']) \<and>
   fetchOptimizedSchedule [] ''aaaaaaaaaaaaaaaaaaaaaaaa'' 1757894400000 ([], []) = Some ([], []) \<and>
   appointments_POST envA emptyDb (bodyA\<lparr>b_time := Some ''03:17''\<rparr>) =
     (Json (apptA\<lparr>time := ''03:17'', sessionStartTime := ''03:17''\<rparr>),
      emptyDb\<lparr>appointments := [apptA\<lparr>time := ''03:17'', sessionStartTime := ''03:17''\<rparr>]\<rparr>)"
  using default_slots no_slots odd_booking by simp

section \<open>Two bookings at once\<close>

text \<open>Served alone, the steps of the handler give the answer of \<open>appointments_POST\<close>.\<close>

lemma booking_alone_POST:
  "booking_alone env body db =
     (Finished (fst (appointments_POST env db body)), snd (appointments_POST env db body))"
  by (simp add: booking_alone_def appointments_POST_def Let_def split: option.splits)

text \<open>One request after the other: the second is told that the slot is booked.\<close>

lemma bookings_in_turn:
  "bookTwice envA bodyA envB bodyB [False, False, False, True, True, True] emptyDb =
     \<lparr>pcA = Finished (Json apptA), pcB = Finished (Error 400 ''Time slot already booked''),
      store = dbA\<rparr>"
  by (simp add: bookTwice_def sample_defs eval_defs)

text \<open>
  Whatever the database and the two requests: when both are for the same free slot and
  both inserts go through, the schedule in which both conflict queries come first lets
  both requests succeed.
\<close>

lemma race_both_succeed:
  assumes pa: "truthy (b_doctorId ba)" "truthy (b_patientId ba)" "truthy (b_date ba)"
      "truthy (b_time ba)"
    and pb: "truthy (b_doctorId bb)" "truthy (b_patientId bb)" "truthy (b_date bb)"
      "truthy (b_time bb)"
    and same: "ObjectId (the (b_doctorId ba)) = Some did" "ObjectId (the (b_doctorId bb)) = Some did"
      "the (b_date bb) = the (b_date ba)" "the (b_time bb) = the (b_time ba)"
    and pat: "ObjectId (the (b_patientId ba)) = Some p" "ObjectId (the (b_patientId bb)) = Some q"
    and free: "\<not> slotHeld db (the (b_doctorId ba)) (the (b_date ba)) (the (b_time ba))"
    and ins: "insertable db (newId ea) (bookingKey ea ba)" "insertable db (newId eb) (bookingKey eb bb)"
      "newId ea \<noteq> newId eb" "appointmentKey_idx db \<longrightarrow> bookingKey ea ba \<noteq> bookingKey eb bb"
  shows "\<exists>a b. bookTwice ea ba eb bb [False, True, False, True, False, True] db =
           \<lparr>pcA = Finished (Json a), pcB = Finished (Json b),
            store = db\<lparr>appointments := appointments db @ [a, b]\<rparr>\<rparr> \<and>
           slotTaken did (the (b_date ba)) (the (b_time ba)) a \<and>
           slotTaken did (the (b_date ba)) (the (b_time ba)) b"
proof -
  define a where "a = newAppointment ea (bookingKey ea ba) did p (the (b_date ba)) (the (b_time ba))
      (b_doctorName ba)
      (if truthy (b_patientName ba) then the (b_patientName ba) else patientNameOf (patients db) p)
      (b_doctorAddress ba)"
  define b where "b = newAppointment eb (bookingKey eb bb) did q (the (b_date ba)) (the (b_time ba))
      (b_doctorName bb)
      (if truthy (b_patientName bb) then the (b_patientName bb) else patientNameOf (patients db) q)
      (b_doctorAddress bb)"
  define db1 where "db1 = db\<lparr>appointments := appointments db @ [a]\<rparr>"
  have f: "findOne (slotTaken did (the (b_date ba)) (the (b_time ba))) (appointments db) = None"
    using free same(1) by (simp add: findOne_None slotHeld_def)
  have s1: "booking_step ea ba AtCheck db = (AtPatient did, db)"
    using pa same(1) f by simp
  have s2: "booking_step eb bb AtCheck db = (AtPatient did, db)"
    using pb same f by simp
  have s3: "booking_step ea ba (AtPatient did) db = (AtInsert a, db)"
    using pat(1) by (simp add: a_def bookingKey_def Let_def)
  have s4: "booking_step eb bb (AtPatient did) db = (AtInsert b, db)"
    using pat(2) same by (simp add: b_def bookingKey_def Let_def)
  have fa: "oid a = newId ea" "appointmentKey a = bookingKey ea ba"
    and fb: "oid b = newId eb" "appointmentKey b = bookingKey eb bb"
    by (simp_all add: a_def b_def newAppointment_def)
  have s5: "booking_step ea ba (AtInsert a) db = (Finished (Json a), db1)"
    using ins(1) fa by (simp add: insertOne_def insertable_def db1_def)
  have s6: "booking_step eb bb (AtInsert b) db1 =
      (Finished (Json b), db\<lparr>appointments := appointments db @ [a, b]\<rparr>)"
    using ins(2,3,4) fa fb by (auto simp: insertOne_def insertable_def db1_def)
  have "bookTwice ea ba eb bb [False, True, False, True, False, True] db =
      \<lparr>pcA = Finished (Json a), pcB = Finished (Json b),
       store = db\<lparr>appointments := appointments db @ [a, b]\<rparr>\<rparr>"
    by (simp add: bookTwice_def s1 s2 s3 s4 s5 s6 del: booking_step.simps)
  moreover have "slotTaken did (the (b_date ba)) (the (b_time ba)) a"
    "slotTaken did (the (b_date ba)) (the (b_time ba)) b"
    by (simp_all add: a_def b_def newAppointment_def slotTaken_def)
  ultimately show ?thesis by blast
qed

text \<open>
  C2 fails on the code.  When both handlers run their conflict query before either
  inserts, both find the slot free, both insert, and both requests succeed: the collection
  ends with two pending appointments for the same doctor, date and time, and no request is
  told of a conflict.
\<close>

theorem concurrent_bookings_both_succeed:
  "bookTwice envA bodyA envB bodyB [False, True, False, True, False, True] emptyDb =
     \<lparr>pcA = Finished (Json apptA), pcB = Finished (Json apptB),
      store = emptyDb\<lparr>appointments := [apptA, apptB]\<rparr>\<rparr> \<and>
   slotTaken ''aaaaaaaaaaaaaaaaaaaaaaaa'' ''2025-09-15'' ''09:00'' apptA \<and>
   slotTaken ''aaaaaaaaaaaaaaaaaaaaaaaa'' ''2025-09-15'' ''09:00'' apptB"
  by (simp add: bookTwice_def sample_defs eval_defs)

section \<open>Properties of schedule resolution\<close>

lemma findOne_absent: "(\<forall>x \<in> set xs. \<not> P x) \<Longrightarrow> findOne P xs = None"
  by (simp add: findOne_None list_ex_iff)


lemma getDefaultSchedule_days:
  "map dayOfWeek getDefaultSchedule =
     [''Monday'', ''Tuesday'', ''Wednesday'', ''Thursday'', ''Friday'', ''Saturday'', ''Sunday'']"
  by (simp add: getDefaultSchedule_def)

lemma getDefaultSchedule_hours:
  "d \<in> set getDefaultSchedule \<Longrightarrow>
     (if dayOfWeek d = ''Sunday''
      then isOffDay d \<and> morningStart d = None \<and> morningEnd d = None \<and>
           eveningStart d = None \<and> eveningEnd d = None
      else \<not> isOffDay d \<and> morningStart d = Some ''09:00'' \<and> morningEnd d = Some ''12:00'' \<and>
           eveningStart d = Some ''14:00'' \<and> eveningEnd d = Some ''18:00'') \<and>
     slotduration d = Some ''30'' \<and> morningSlots d = None \<and> eveningSlots d = None"
  by (auto simp: getDefaultSchedule_def)

lemma scheduleDefaultDays_days:
  "map dayOfWeek scheduleDefaultDays =
     [''Monday'', ''Tuesday'', ''Wednesday'', ''Thursday'', ''Friday'', ''Saturday'', ''Sunday'']"
  by (simp add: scheduleDefaultDays_def defaultDay_def)

lemma scheduleDefaultDays_hours:
  "d \<in> set scheduleDefaultDays \<Longrightarrow>
     (if dayOfWeek d = ''Sunday''
      then isOffDay d \<and> morningStart d = None \<and> morningEnd d = None \<and>
           eveningStart d = None \<and> eveningEnd d = None
      else \<not> isOffDay d \<and> morningStart d = Some ''08:00'' \<and> morningEnd d = Some ''11:00'' \<and>
           eveningStart d = Some ''16:00'' \<and> eveningEnd d = Some ''21:00'') \<and>
     slotduration d = Some ''30'' \<and> morningSlots d = None \<and> eveningSlots d = None"
  by (auto simp: scheduleDefaultDays_def defaultDay_def)

text \<open>
  C8, as the code has it.  For a well-formed doctor id without any schedule document, the
  optimized schedule route answers with \<open>getDefaultSchedule\<close>: Monday to Saturday 09:00 to
  12:00 and 14:00 to 18:00, Sunday off.  The schedule route answers with its own literal
  default: Monday to Saturday 08:00 to 11:00 and 16:00 to 21:00, Sunday off.  The slots
  route has no default and answers 404.
\<close>

theorem default_schedule_when_no_document:
  assumes "is_hex24 doctor"
    and "\<forall>s \<in> set docs. s_doctorId s \<noteq> map hex_lower doctor"
  shows "(\<exists>body. schedule_optimized_GET docs doctor d w = Json body \<and>
            o_scheduleType body = ''default'' \<and> o_days body = Some getDefaultSchedule) \<and>
         map dayOfWeek getDefaultSchedule =
           [''Monday'', ''Tuesday'', ''Wednesday'', ''Thursday'', ''Friday'', ''Saturday'',
            ''Sunday''] \<and>
         (\<forall>x \<in> set getDefaultSchedule.
            if dayOfWeek x = ''Sunday''
            then isOffDay x \<and> morningStart x = None \<and> morningEnd x = None \<and>
                 eveningStart x = None \<and> eveningEnd x = None
            else \<not> isOffDay x \<and> morningStart x = Some ''09:00'' \<and> morningEnd x = Some ''12:00'' \<and>
                 eveningStart x = Some ''14:00'' \<and> eveningEnd x = Some ''18:00'') \<and>
         (\<exists>body. schedule_GET docs doctor d = Json body \<and>
            scheduleType body = ''default'' \<and> r_days body = Some scheduleDefaultDays) \<and>
         map dayOfWeek scheduleDefaultDays =
           [''Monday'', ''Tuesday'', ''Wednesday'', ''Thursday'', ''Friday'', ''Saturday'',
            ''Sunday''] \<and>
         (\<forall>x \<in> set scheduleDefaultDays.
            if dayOfWeek x = ''Sunday''
            then isOffDay x \<and> morningStart x = None \<and> morningEnd x = None \<and>
                 eveningStart x = None \<and> eveningEnd x = None
            else \<not> isOffDay x \<and> morningStart x = Some ''08:00'' \<and> morningEnd x = Some ''11:00'' \<and>
                 eveningStart x = Some ''16:00'' \<and> eveningEnd x = Some ''21:00'') \<and>
         slots_optimized_GET docs (Some doctor) d w = Error 404 ''No schedule found''"
proof -
  have none: "findOne (\<lambda>s. s_doctorId s = map hex_lower doctor \<and> Q s) docs = None" for Q
    using assms(2) by (intro findOne_absent) simp
  have none': "findOne (\<lambda>s. s_doctorId s = map hex_lower doctor) docs = None"
    using assms(2) by (intro findOne_absent) simp
  have tr: "truthy (Some doctor)" using assms(1) by (rule is_hex24_truthy)
  have 1: "\<exists>body. schedule_optimized_GET docs doctor d w = Json body \<and>
            o_scheduleType body = ''default'' \<and> o_days body = Some getDefaultSchedule"
    using assms(1) none none'
    by (simp add: schedule_optimized_GET_def optDayStrategies_def Let_def split: option.splits)
  have 2: "\<exists>body. schedule_GET docs doctor d = Json body \<and>
            scheduleType body = ''default'' \<and> r_days body = Some scheduleDefaultDays"
    using assms(1) none none'
    by (simp add: schedule_GET_def Let_def split: option.splits)
  have 3: "slots_optimized_GET docs (Some doctor) d w = Error 404 ''No schedule found''"
    using assms(1) none none' tr
    by (simp add: slots_optimized_GET_def slots_tail_def Let_def split: option.splits)
  show ?thesis
    using 1 2 3 getDefaultSchedule_days getDefaultSchedule_hours scheduleDefaultDays_days
      scheduleDefaultDays_hours
    by (intro conjI ballI) simp_all
qed

theorem default_schedule_when_no_document_witness:
  "is_hex24 ''dddddddddddddddddddddddd'' \<and>
   s_doctorId rangeSchedule \<noteq> map hex_lower ''dddddddddddddddddddddddd'' \<and>
   (\<exists>body. schedule_optimized_GET [rangeSchedule] ''dddddddddddddddddddddddd''
             (Some 1757894400000) None = Json body \<and>
      o_scheduleType body = ''default'' \<and> o_days body = Some getDefaultSchedule) \<and>
   (\<exists>body. schedule_GET [rangeSchedule] ''dddddddddddddddddddddddd'' (Some 1757894400000) =
             Json body \<and>
      scheduleType body = ''default'' \<and> r_days body = Some scheduleDefaultDays) \<and>
   slots_optimized_GET [rangeSchedule] (Some ''dddddddddddddddddddddddd'') (Some 1757894400000)
     None = Error 404 ''No schedule found''"
proof -
  have h1: "is_hex24 ''dddddddddddddddddddddddd''"
    by (simp add: is_hex24_def is_hex_def)
  have h2: "\<forall>s \<in> set [rangeSchedule].
      s_doctorId s \<noteq> map hex_lower ''dddddddddddddddddddddddd''"
    by (simp add: rangeSchedule_def hex_lower_def)
  from default_schedule_when_no_document [OF h1 h2, of "Some 1757894400000" None] h1 h2
  show ?thesis by simp
qed

text \<open>
  The claim fails on the two other routes: without any document the schedule route
  offers Monday 08:00 to 11:00 and 16:00 to 21:00, not 09:00 to 12:00 and 14:00 to 18:00,
  and the slots route offers nothing.
\<close>

theorem default_schedule_hours_counterexample:
  "schedule_GET [] ''aaaaaaaaaaaaaaaaaaaaaaaa'' (Some 1757894400000) =
     Json \<lparr>r_schedule = None, r_days = Some scheduleDefaultDays, selectedDay = None,
           currentDateRange = None, scheduleType = ''default'', isWithinRange = Some True,
           r_dayOfWeek = None\<rparr> \<and>
   findDay ''Monday'' (Some scheduleDefaultDays) = Some (defaultDay ''Monday'') \<and>
   morningStart (defaultDay ''Monday'') = Some ''08:00'' \<and>
   morningEnd (defaultDay ''Monday'') = Some ''11:00'' \<and>
   eveningStart (defaultDay ''Monday'') = Some ''16:00'' \<and>
   eveningEnd (defaultDay ''Monday'') = Some ''21:00'' \<and>
   slots_optimized_GET [] (Some ''aaaaaaaaaaaaaaaaaaaaaaaa'') (Some 1757894400000)
     (Some ''Monday'') = Error 404 ''No schedule found''"
  by (simp add: schedule_GET_def slots_optimized_GET_def slots_tail_def is_hex24_def is_hex_def
      findOne_def findDay_def scheduleDefaultDays_def defaultDay_def)



















end
